theory Spec2Isabelle
  imports Main "HOL-Library.Word"
begin

section \<open>Two-player LED and spacebar sketch (picostuff/picobutton.cpp)\<close>

text \<open>
  A shallow embedding of the Arduino sketch. The globals of the sketch (\<open>P1\<close>, \<open>P2\<close>,
  \<open>lastState\<close>) and the board it runs on (millisecond clock, button input, serial receive
  buffer, and the trace of everything the sketch sends to the outside) are explicit state.
\<close>

subsection \<open>Data\<close>

text \<open>
  \<open>LOW\<close> and \<open>HIGH\<close> are the two pin levels of the Arduino core. The sketch stores them in
  \<open>int\<close> variables, which only ever hold one of the two: they are assigned the constants
  or the result of \<open>digitalRead\<close>.
\<close>

datatype level = LOW | HIGH

datatype pin_dir = INPUT | OUTPUT

text \<open>\<open>unsigned long\<close> on the RP2040 is 32 bits wide; subtraction wraps around.\<close>

type_synonym ulong = "32 word"

definition P1_LED_PIN :: int where "P1_LED_PIN = 16"
definition P2_LED_PIN :: int where "P2_LED_PIN = 17"

text \<open>
  \<open>LED_BUILTIN\<close> comes from the board's header, which is not part of the sketch: 25 on
  the Raspberry Pi Pico. No result below depends on the number, apart from its being none
  of the other pins.
\<close>

definition LED_BUILTIN :: int where "LED_BUILTIN = 25"
definition PI_LED :: int where "PI_LED = LED_BUILTIN"
definition BUTTON_LED :: int where "BUTTON_LED = 19"
definition BUTTON_PIN :: int where "BUTTON_PIN = 18"

datatype LedMode = OFF_MODE | SOLID_ON | BLINK_1HZ | BLINK_2HZ | BLINK_4HZ

record PlayerLed =
  pin :: int
  mode :: LedMode
  lastToggleMs :: ulong
  currentLevel :: level

text \<open>Everything the sketch does to the outside world, in the order it does it.\<close>

datatype event =
    PinMode int pin_dir
  | DigitalWrite int level
  | SerialBegin nat
  | KeyboardBegin
  | KeyPress char
  | KeyReleaseAll

text \<open>
  The board: \<open>clock\<close> is what \<open>millis()\<close> returns, \<open>button\<close> the level on
  \<open>BUTTON_PIN\<close>, \<open>rx\<close> the bytes received on the serial port and not yet read (oldest
  first), \<open>out\<close> the trace of output events.
\<close>

record board =
  clock :: ulong
  button :: level
  rx :: "char list"
  out :: "event list"

record sketch =
  P1 :: PlayerLed
  P2 :: PlayerLed
  lastState :: level
  hw :: board

subsection \<open>The Arduino calls the sketch makes\<close>

definition emit :: "event \<Rightarrow> board \<Rightarrow> board" where
  "emit e b = b\<lparr>out := out b @ [e]\<rparr>"

definition pinMode :: "int \<Rightarrow> pin_dir \<Rightarrow> board \<Rightarrow> board" where
  "pinMode p d b = emit (PinMode p d) b"

definition digitalWrite :: "int \<Rightarrow> level \<Rightarrow> board \<Rightarrow> board" where
  "digitalWrite p v b = emit (DigitalWrite p v) b"

definition digitalRead :: "int \<Rightarrow> board \<Rightarrow> level" where
  "digitalRead p b = button b"

definition millis :: "board \<Rightarrow> ulong" where
  "millis b = clock b"

text \<open>\<open>delay\<close> blocks for the given number of milliseconds: the clock moves on by it.\<close>

definition delay :: "ulong \<Rightarrow> board \<Rightarrow> board" where
  "delay n b = b\<lparr>clock := clock b + n\<rparr>"

definition Serial_available :: "board \<Rightarrow> nat" where
  "Serial_available b = length (rx b)"

subsection \<open>The sketch\<close>

definition modeToInterval :: "LedMode \<Rightarrow> ulong" where
  "modeToInterval m =
     (case m of BLINK_1HZ \<Rightarrow> 500 | BLINK_2HZ \<Rightarrow> 250 | BLINK_4HZ \<Rightarrow> 125 | _ \<Rightarrow> 0)"

definition applyModeImmediate :: "PlayerLed \<Rightarrow> board \<Rightarrow> PlayerLed \<times> board" where
  "applyModeImmediate pl b =
     (let (pl1, b1) =
        (if mode pl = OFF_MODE then
           (pl\<lparr>currentLevel := LOW\<rparr>, digitalWrite (pin pl) LOW b)
         else if mode pl = SOLID_ON then
           (pl\<lparr>currentLevel := HIGH\<rparr>, digitalWrite (pin pl) HIGH b)
         else (pl, b))
      in (pl1\<lparr>lastToggleMs := millis b1\<rparr>, b1))"

definition updateBlink :: "PlayerLed \<Rightarrow> ulong \<Rightarrow> board \<Rightarrow> PlayerLed \<times> board" where
  "updateBlink pl now b =
     (if mode pl = BLINK_1HZ \<or> mode pl = BLINK_2HZ \<or> mode pl = BLINK_4HZ then
        (let interval = modeToInterval (mode pl) in
         if now - lastToggleMs pl \<ge> interval then
           (let pl1 = pl\<lparr>currentLevel := (if currentLevel pl = LOW then HIGH else LOW)\<rparr>;
                b1 = digitalWrite (pin pl1) (currentLevel pl1) b
            in (pl1\<lparr>lastToggleMs := now\<rparr>, b1))
         else (pl, b))
      else (pl, b))"

text \<open>The globals as their initialisers leave them, on a board \<open>b\<close>.\<close>

definition globals :: "board \<Rightarrow> sketch" where
  "globals b =
     \<lparr>P1 = \<lparr>pin = P1_LED_PIN, mode = OFF_MODE, lastToggleMs = 0, currentLevel = LOW\<rparr>,
      P2 = \<lparr>pin = P2_LED_PIN, mode = OFF_MODE, lastToggleMs = 0, currentLevel = LOW\<rparr>,
      lastState = HIGH,
      hw = b\<rparr>"

text \<open>\<open>applyModeImmediate(P1)\<close> and \<open>applyModeImmediate(P2)\<close> on the globals.\<close>

definition apply_P1 :: "sketch \<Rightarrow> sketch" where
  "apply_P1 s = (let (pl, b) = applyModeImmediate (P1 s) (hw s) in s\<lparr>P1 := pl, hw := b\<rparr>)"

definition apply_P2 :: "sketch \<Rightarrow> sketch" where
  "apply_P2 s = (let (pl, b) = applyModeImmediate (P2 s) (hw s) in s\<lparr>P2 := pl, hw := b\<rparr>)"

definition setup' :: "sketch \<Rightarrow> sketch" where
  "setup' s =
     (let b1 = pinMode P1_LED_PIN OUTPUT (hw s);
          b2 = pinMode P2_LED_PIN OUTPUT b1;
          b3 = pinMode BUTTON_LED OUTPUT b2;
          b4 = pinMode PI_LED OUTPUT b3;
          b5 = pinMode BUTTON_PIN INPUT b4;
          b6 = digitalWrite P1_LED_PIN LOW b5;
          b7 = digitalWrite P2_LED_PIN LOW b6;
          b8 = emit (SerialBegin 9600) b7;
          b9 = emit KeyboardBegin b8
      in apply_P2 (apply_P1 (s\<lparr>hw := b9\<rparr>)))"

text \<open>Power-on: static initialisation, then \<open>setup()\<close>.\<close>

definition boot :: "board \<Rightarrow> sketch" where
  "boot b = setup' (globals b)"

text \<open>Lines 86 to 105 of \<open>loop()\<close>: the button, its mirror LED and the key press.\<close>

definition loop_button :: "sketch \<Rightarrow> sketch" where
  "loop_button s =
     (let state = digitalRead BUTTON_PIN (hw s);
          b1 = (if state = HIGH then digitalWrite BUTTON_LED HIGH (hw s)
                else digitalWrite BUTTON_LED LOW (hw s));
          b2 = (if state = HIGH \<and> lastState s = LOW then
                  emit KeyReleaseAll
                    (delay 50 (emit (KeyPress CHR '' '') (digitalWrite PI_LED HIGH b1)))
                else digitalWrite PI_LED LOW b1)
      in s\<lparr>lastState := state, hw := b2\<rparr>)"

text \<open>The \<open>switch (c)\<close> of lines 110 to 131.\<close>

definition command :: "char \<Rightarrow> sketch \<Rightarrow> sketch" where
  "command c s =
     (if c = CHR ''A'' then apply_P1 (s\<lparr>P1 := (P1 s)\<lparr>mode := SOLID_ON\<rparr>\<rparr>)
      else if c = CHR ''a'' then apply_P1 (s\<lparr>P1 := (P1 s)\<lparr>mode := OFF_MODE\<rparr>\<rparr>)
      else if c = CHR ''B'' then apply_P2 (s\<lparr>P2 := (P2 s)\<lparr>mode := SOLID_ON\<rparr>\<rparr>)
      else if c = CHR ''b'' then apply_P2 (s\<lparr>P2 := (P2 s)\<lparr>mode := OFF_MODE\<rparr>\<rparr>)
      else if c = CHR ''Y'' then
        apply_P2 (apply_P1 (s\<lparr>P1 := (P1 s)\<lparr>mode := SOLID_ON\<rparr>,
                               P2 := (P2 s)\<lparr>mode := SOLID_ON\<rparr>\<rparr>))
      else if c = CHR ''X'' then
        apply_P2 (apply_P1 (s\<lparr>P1 := (P1 s)\<lparr>mode := OFF_MODE\<rparr>,
                               P2 := (P2 s)\<lparr>mode := OFF_MODE\<rparr>\<rparr>))
      else if c = CHR ''1'' then apply_P1 (s\<lparr>P1 := (P1 s)\<lparr>mode := BLINK_1HZ\<rparr>\<rparr>)
      else if c = CHR ''2'' then apply_P1 (s\<lparr>P1 := (P1 s)\<lparr>mode := BLINK_2HZ\<rparr>\<rparr>)
      else if c = CHR ''3'' then apply_P1 (s\<lparr>P1 := (P1 s)\<lparr>mode := BLINK_4HZ\<rparr>\<rparr>)
      else if c = CHR ''4'' then apply_P2 (s\<lparr>P2 := (P2 s)\<lparr>mode := BLINK_1HZ\<rparr>\<rparr>)
      else if c = CHR ''5'' then apply_P2 (s\<lparr>P2 := (P2 s)\<lparr>mode := BLINK_2HZ\<rparr>\<rparr>)
      else if c = CHR ''6'' then apply_P2 (s\<lparr>P2 := (P2 s)\<lparr>mode := BLINK_4HZ\<rparr>\<rparr>)
      else s)"

text \<open>
  Lines 108 to 132: \<open>if (Serial.available() > 0)\<close>, one \<open>Serial.read()\<close>, the switch.
\<close>

definition loop_serial :: "sketch \<Rightarrow> sketch" where
  "loop_serial s =
     (if Serial_available (hw s) > 0 then
        (case rx (hw s) of
           c # rest \<Rightarrow> command c (s\<lparr>hw := (hw s)\<lparr>rx := rest\<rparr>\<rparr>)
         | [] \<Rightarrow> s)
      else s)"

text \<open>Lines 135 and 136: both LEDs are updated with the same \<open>now\<close>.\<close>

definition loop_blink :: "ulong \<Rightarrow> sketch \<Rightarrow> sketch" where
  "loop_blink now s =
     (let (pl1, b1) = updateBlink (P1 s) now (hw s);
          (pl2, b2) = updateBlink (P2 s) now b1
      in s\<lparr>P1 := pl1, P2 := pl2, hw := b2\<rparr>)"

definition loop :: "sketch \<Rightarrow> sketch" where
  "loop s =
     (let now = millis (hw s);
          s1 = loop_button s;
          s2 = loop_serial s1;
          s3 = loop_blink now s2
      in s3\<lparr>hw := delay 1 (hw s3)\<rparr>)"

subsection \<open>Running the sketch\<close>

text \<open>
  What the world does between two iterations of \<open>loop()\<close>: the button takes a level, time
  passes, bytes arrive on the serial port.
\<close>

record env =
  e_button :: level
  e_elapsed :: ulong
  e_bytes :: "char list"

definition arrive :: "env \<Rightarrow> board \<Rightarrow> board" where
  "arrive e b = b\<lparr>clock := clock b + e_elapsed e, button := e_button e, rx := rx b @ e_bytes e\<rparr>"

definition iteration :: "env \<Rightarrow> sketch \<Rightarrow> sketch" where
  "iteration e s = loop (s\<lparr>hw := arrive e (hw s)\<rparr>)"

text \<open>The core calls \<open>loop()\<close> again and again; one \<open>env\<close> per iteration.\<close>

fun run :: "env list \<Rightarrow> sketch \<Rightarrow> sketch" where
  "run [] s = s"
| "run (e # es) s = run es (iteration e s)"

text \<open>The states after each iteration of a run.\<close>

fun run_states :: "env list \<Rightarrow> sketch \<Rightarrow> sketch list" where
  "run_states [] s = []"
| "run_states (e # es) s = iteration e s # run_states es (iteration e s)"

text \<open>Repeated calls of \<open>updateBlink\<close> on one LED, one per clock value.\<close>

fun ticks :: "ulong list \<Rightarrow> PlayerLed \<times> board \<Rightarrow> PlayerLed \<times> board" where
  "ticks [] x = x"
| "ticks (now # nows) x = ticks nows (updateBlink (fst x) now (snd x))"

subsection \<open>Reading the output trace\<close>

fun writes_to :: "int \<Rightarrow> event list \<Rightarrow> level list" where
  "writes_to p [] = []"
| "writes_to p (DigitalWrite q v # es) = (if q = p then v # writes_to p es else writes_to p es)"
| "writes_to p (_ # es) = writes_to p es"

fun presses :: "event list \<Rightarrow> nat" where
  "presses [] = 0"
| "presses (KeyPress c # es) = Suc (presses es)"
| "presses (_ # es) = presses es"

subsection \<open>The command table as the specification words it\<close>

text \<open>
  Follows the specification's words (its command table), for comparison with \<open>command\<close>:
  each byte stands for a list of (indicator, mode) assignments, and an assignment sets the
  mode of the indicator it names.
\<close>

datatype indicator = Player1 | Player2

definition spec_table :: "char \<Rightarrow> (indicator \<times> LedMode) list" where
  "spec_table c =
     (if c = CHR ''A'' then [(Player1, SOLID_ON)]
      else if c = CHR ''a'' then [(Player1, OFF_MODE)]
      else if c = CHR ''B'' then [(Player2, SOLID_ON)]
      else if c = CHR ''b'' then [(Player2, OFF_MODE)]
      else if c = CHR ''Y'' then [(Player1, SOLID_ON), (Player2, SOLID_ON)]
      else if c = CHR ''X'' then [(Player1, OFF_MODE), (Player2, OFF_MODE)]
      else if c = CHR ''1'' then [(Player1, BLINK_1HZ)]
      else if c = CHR ''2'' then [(Player1, BLINK_2HZ)]
      else if c = CHR ''3'' then [(Player1, BLINK_4HZ)]
      else if c = CHR ''4'' then [(Player2, BLINK_1HZ)]
      else if c = CHR ''5'' then [(Player2, BLINK_2HZ)]
      else if c = CHR ''6'' then [(Player2, BLINK_4HZ)]
      else [])"

fun spec_apply :: "(indicator \<times> LedMode) list \<Rightarrow> LedMode \<times> LedMode \<Rightarrow> LedMode \<times> LedMode" where
  "spec_apply [] ms = ms"
| "spec_apply ((Player1, m) # cs) (m1, m2) = spec_apply cs (m, m2)"
| "spec_apply ((Player2, m) # cs) (m1, m2) = spec_apply cs (m1, m)"

subsection \<open>Auxiliary notions and sample inputs\<close>

text \<open>The sketch with the given bytes waiting in the receive buffer.\<close>

definition with_rx :: "char list \<Rightarrow> sketch \<Rightarrow> sketch" where
  "with_rx r s = s\<lparr>hw := (hw s)\<lparr>rx := r\<rparr>\<rparr>"

text \<open>A board just powered: nothing sent yet.\<close>

definition fresh_board :: "ulong \<Rightarrow> level \<Rightarrow> char list \<Rightarrow> board" where
  "fresh_board t l bytes = \<lparr>clock = t, button = l, rx = bytes, out = []\<rparr>"

text \<open>One millisecond passes, the button reads \<open>l\<close>, no byte arrives.\<close>

definition sample :: "level \<Rightarrow> env" where
  "sample l = \<lparr>e_button = l, e_elapsed = 1, e_bytes = []\<rparr>"

text \<open>One millisecond passes, the button reads \<open>l\<close>, the given bytes arrive.\<close>

definition sample_with :: "level \<Rightarrow> char list \<Rightarrow> env" where
  "sample_with l bytes = \<lparr>e_button = l, e_elapsed = 1, e_bytes = bytes\<rparr>"

text \<open>An LED on pin 16 in the given mode, last toggled at 1000 ms, currently dark.\<close>

definition led16 :: "LedMode \<Rightarrow> PlayerLed" where
  "led16 m = \<lparr>pin = 16, mode = m, lastToggleMs = 1000, currentLevel = LOW\<rparr>"

section \<open>Basic facts\<close>

lemma writes_to_append: "writes_to p (xs @ ys) = writes_to p xs @ writes_to p ys"
  by (induction p xs rule: writes_to.induct) simp_all

lemma presses_append: "presses (xs @ ys) = presses xs + presses ys"
  by (induction xs rule: presses.induct) simp_all

lemma pins_distinct:
  "BUTTON_LED \<noteq> P1_LED_PIN" "BUTTON_LED \<noteq> P2_LED_PIN" "BUTTON_LED \<noteq> PI_LED"
  "PI_LED \<noteq> P1_LED_PIN" "PI_LED \<noteq> P2_LED_PIN" "PI_LED \<noteq> BUTTON_LED"
  by (simp_all add: BUTTON_LED_def P1_LED_PIN_def P2_LED_PIN_def PI_LED_def LED_BUILTIN_def)

lemma interval_values:
  "modeToInterval BLINK_1HZ = 500" "modeToInterval BLINK_2HZ = 250"
  "modeToInterval BLINK_4HZ = 125" "modeToInterval OFF_MODE = 0" "modeToInterval SOLID_ON = 0"
  by (simp_all add: modeToInterval_def)

subsection \<open>One LED\<close>

lemma updateBlink_static:
  "mode pl = OFF_MODE \<or> mode pl = SOLID_ON \<Longrightarrow> updateBlink pl now b = (pl, b)"
  by (auto simp: updateBlink_def)

lemma updateBlink_wait:
  "now - lastToggleMs pl < modeToInterval (mode pl) \<Longrightarrow> updateBlink pl now b = (pl, b)"
  by (auto simp: updateBlink_def Let_def)

lemma updateBlink_due:
  assumes "mode pl = BLINK_1HZ \<or> mode pl = BLINK_2HZ \<or> mode pl = BLINK_4HZ"
    and "modeToInterval (mode pl) \<le> now - lastToggleMs pl"
  shows "updateBlink pl now b =
    (pl\<lparr>currentLevel := (if currentLevel pl = LOW then HIGH else LOW), lastToggleMs := now\<rparr>,
     b\<lparr>out := out b @ [DigitalWrite (pin pl) (if currentLevel pl = LOW then HIGH else LOW)]\<rparr>)"
  using assms by (auto simp: updateBlink_def Let_def digitalWrite_def emit_def)

lemma applyModeImmediate_blink:
  "m = BLINK_1HZ \<or> m = BLINK_2HZ \<or> m = BLINK_4HZ \<Longrightarrow>
   applyModeImmediate (pl\<lparr>mode := m\<rparr>) b = (pl\<lparr>mode := m, lastToggleMs := clock b\<rparr>, b)"
  by (auto simp: applyModeImmediate_def millis_def)

lemma applyModeImmediate_off:
  "applyModeImmediate (pl\<lparr>mode := OFF_MODE\<rparr>) b =
     (pl\<lparr>mode := OFF_MODE, currentLevel := LOW, lastToggleMs := clock b\<rparr>,
      b\<lparr>out := out b @ [DigitalWrite (pin pl) LOW]\<rparr>)"
  by (simp add: applyModeImmediate_def millis_def digitalWrite_def emit_def)

lemma applyModeImmediate_solid:
  "applyModeImmediate (pl\<lparr>mode := SOLID_ON\<rparr>) b =
     (pl\<lparr>mode := SOLID_ON, currentLevel := HIGH, lastToggleMs := clock b\<rparr>,
      b\<lparr>out := out b @ [DigitalWrite (pin pl) HIGH]\<rparr>)"
  by (simp add: applyModeImmediate_def millis_def digitalWrite_def emit_def)

lemma ticks_static:
  "mode pl = OFF_MODE \<or> mode pl = SOLID_ON \<Longrightarrow> ticks nows (pl, b) = (pl, b)"
  by (induction nows) (simp_all add: updateBlink_static)

lemma ticks_wait:
  "\<forall>now\<in>set nows. now - lastToggleMs pl < modeToInterval (mode pl) \<Longrightarrow>
   ticks nows (pl, b) = (pl, b)"
  by (induction nows) (simp_all add: updateBlink_wait)

subsection \<open>What each part of the loop leaves alone\<close>

lemma applyModeImmediate_frame:
  "pin (fst (applyModeImmediate pl b)) = pin pl"
  "mode (fst (applyModeImmediate pl b)) = mode pl"
  "clock (snd (applyModeImmediate pl b)) = clock b"
  "button (snd (applyModeImmediate pl b)) = button b"
  "rx (snd (applyModeImmediate pl b)) = rx b"
  "presses (out (snd (applyModeImmediate pl b))) = presses (out b)"
  "p \<noteq> pin pl \<Longrightarrow> writes_to p (out (snd (applyModeImmediate pl b))) = writes_to p (out b)"
  by (simp_all add: applyModeImmediate_def digitalWrite_def emit_def millis_def
      presses_append writes_to_append)

lemma updateBlink_frame:
  "pin (fst (updateBlink pl now b)) = pin pl"
  "mode (fst (updateBlink pl now b)) = mode pl"
  "clock (snd (updateBlink pl now b)) = clock b"
  "button (snd (updateBlink pl now b)) = button b"
  "rx (snd (updateBlink pl now b)) = rx b"
  "presses (out (snd (updateBlink pl now b))) = presses (out b)"
  "p \<noteq> pin pl \<Longrightarrow> writes_to p (out (snd (updateBlink pl now b))) = writes_to p (out b)"
  by (simp_all add: updateBlink_def Let_def digitalWrite_def emit_def
      presses_append writes_to_append)

lemma updateBlink_rx:
  "updateBlink pl now (b\<lparr>rx := r\<rparr>) =
     (fst (updateBlink pl now b), (snd (updateBlink pl now b))\<lparr>rx := r\<rparr>)"
  by (simp add: updateBlink_def Let_def digitalWrite_def emit_def)

lemma apply_P1_frame:
  "lastState (apply_P1 s) = lastState s"
  "P2 (apply_P1 s) = P2 s"
  "pin (P1 (apply_P1 s)) = pin (P1 s)"
  "mode (P1 (apply_P1 s)) = mode (P1 s)"
  "clock (hw (apply_P1 s)) = clock (hw s)"
  "button (hw (apply_P1 s)) = button (hw s)"
  "rx (hw (apply_P1 s)) = rx (hw s)"
  "presses (out (hw (apply_P1 s))) = presses (out (hw s))"
  "p \<noteq> pin (P1 s) \<Longrightarrow> writes_to p (out (hw (apply_P1 s))) = writes_to p (out (hw s))"
  using applyModeImmediate_frame [where pl = "P1 s" and b = "hw s"]
  by (simp_all add: apply_P1_def split_beta)

lemma apply_P2_frame:
  "lastState (apply_P2 s) = lastState s"
  "P1 (apply_P2 s) = P1 s"
  "pin (P2 (apply_P2 s)) = pin (P2 s)"
  "mode (P2 (apply_P2 s)) = mode (P2 s)"
  "clock (hw (apply_P2 s)) = clock (hw s)"
  "button (hw (apply_P2 s)) = button (hw s)"
  "rx (hw (apply_P2 s)) = rx (hw s)"
  "presses (out (hw (apply_P2 s))) = presses (out (hw s))"
  "p \<noteq> pin (P2 s) \<Longrightarrow> writes_to p (out (hw (apply_P2 s))) = writes_to p (out (hw s))"
  using applyModeImmediate_frame [where pl = "P2 s" and b = "hw s"]
  by (simp_all add: apply_P2_def split_beta)

lemma command_frame:
  "lastState (command c s) = lastState s"
  "pin (P1 (command c s)) = pin (P1 s)"
  "pin (P2 (command c s)) = pin (P2 s)"
  "clock (hw (command c s)) = clock (hw s)"
  "button (hw (command c s)) = button (hw s)"
  "rx (hw (command c s)) = rx (hw s)"
  "presses (out (hw (command c s))) = presses (out (hw s))"
  by (simp_all add: command_def apply_P1_frame apply_P2_frame)

lemma command_writes:
  "p \<noteq> pin (P1 s) \<Longrightarrow> p \<noteq> pin (P2 s) \<Longrightarrow>
   writes_to p (out (hw (command c s))) = writes_to p (out (hw s))"
  by (simp add: command_def apply_P1_frame apply_P2_frame)

lemma command_modes:
  "mode (P1 (command c s)) = fst (spec_apply (spec_table c) (mode (P1 s), mode (P2 s)))"
  "mode (P2 (command c s)) = snd (spec_apply (spec_table c) (mode (P1 s), mode (P2 s)))"
  by (simp_all add: command_def spec_table_def apply_P1_frame apply_P2_frame)

lemma command_unknown: "c \<notin> set ''AaBbYX123456'' \<Longrightarrow> command c s = s"
  by (simp add: command_def)

lemma command_Y:
  "mode (P1 (command CHR ''Y'' s)) = SOLID_ON"
  "currentLevel (P1 (command CHR ''Y'' s)) = HIGH"
  "mode (P2 (command CHR ''Y'' s)) = SOLID_ON"
  "currentLevel (P2 (command CHR ''Y'' s)) = HIGH"
  "out (hw (command CHR ''Y'' s)) =
     out (hw s) @ [DigitalWrite (pin (P1 s)) HIGH, DigitalWrite (pin (P2 s)) HIGH]"
  by (simp_all add: command_def apply_P1_def apply_P2_def applyModeImmediate_def
      digitalWrite_def emit_def millis_def)

lemma command_b:
  "P1 (command CHR ''b'' s) = P1 s"
  "mode (P2 (command CHR ''b'' s)) = OFF_MODE"
  "currentLevel (P2 (command CHR ''b'' s)) = LOW"
  "out (hw (command CHR ''b'' s)) = out (hw s) @ [DigitalWrite (pin (P2 s)) LOW]"
  by (simp_all add: command_def apply_P2_def applyModeImmediate_def
      digitalWrite_def emit_def millis_def)

lemma loop_serial_frame:
  "lastState (loop_serial s) = lastState s"
  "pin (P1 (loop_serial s)) = pin (P1 s)"
  "pin (P2 (loop_serial s)) = pin (P2 s)"
  "clock (hw (loop_serial s)) = clock (hw s)"
  "button (hw (loop_serial s)) = button (hw s)"
  "rx (hw (loop_serial s)) = drop 1 (rx (hw s))"
  "presses (out (hw (loop_serial s))) = presses (out (hw s))"
  by (simp_all add: loop_serial_def Serial_available_def command_frame split: list.split)

lemma loop_serial_writes:
  "p \<noteq> pin (P1 s) \<Longrightarrow> p \<noteq> pin (P2 s) \<Longrightarrow>
   writes_to p (out (hw (loop_serial s))) = writes_to p (out (hw s))"
  by (simp add: loop_serial_def Serial_available_def command_writes split: list.split)

lemma loop_serial_modes:
  "mode (P1 (loop_serial s)) =
     (case rx (hw s) of [] \<Rightarrow> mode (P1 s)
      | c # rest \<Rightarrow> fst (spec_apply (spec_table c) (mode (P1 s), mode (P2 s))))"
  "mode (P2 (loop_serial s)) =
     (case rx (hw s) of [] \<Rightarrow> mode (P2 s)
      | c # rest \<Rightarrow> snd (spec_apply (spec_table c) (mode (P1 s), mode (P2 s))))"
  by (simp_all add: loop_serial_def Serial_available_def command_modes split: list.split)

lemma loop_serial_cons:
  "rx (hw s) = c # rest \<Longrightarrow> loop_serial s = command c (with_rx rest s)"
  by (simp add: loop_serial_def Serial_available_def with_rx_def)

lemma loop_blink_frame:
  "lastState (loop_blink now s) = lastState s"
  "pin (P1 (loop_blink now s)) = pin (P1 s)"
  "pin (P2 (loop_blink now s)) = pin (P2 s)"
  "mode (P1 (loop_blink now s)) = mode (P1 s)"
  "mode (P2 (loop_blink now s)) = mode (P2 s)"
  "clock (hw (loop_blink now s)) = clock (hw s)"
  "button (hw (loop_blink now s)) = button (hw s)"
  "rx (hw (loop_blink now s)) = rx (hw s)"
  "presses (out (hw (loop_blink now s))) = presses (out (hw s))"
  by (simp_all add: loop_blink_def split_beta updateBlink_frame)

lemma loop_blink_writes:
  "p \<noteq> pin (P1 s) \<Longrightarrow> p \<noteq> pin (P2 s) \<Longrightarrow>
   writes_to p (out (hw (loop_blink now s))) = writes_to p (out (hw s))"
  by (simp add: loop_blink_def split_beta updateBlink_frame)

lemma loop_button_out:
  "out (hw (loop_button s)) =
     out (hw s) @ [DigitalWrite BUTTON_LED (button (hw s))] @
       (if lastState s = LOW \<and> button (hw s) = HIGH
        then [DigitalWrite PI_LED HIGH, KeyPress CHR '' '', KeyReleaseAll]
        else [DigitalWrite PI_LED LOW])"
  by (cases "button (hw s)")
     (simp_all add: loop_button_def digitalRead_def digitalWrite_def emit_def delay_def)

lemma loop_button_frame:
  "lastState (loop_button s) = button (hw s)"
  "P1 (loop_button s) = P1 s"
  "P2 (loop_button s) = P2 s"
  "button (hw (loop_button s)) = button (hw s)"
  "rx (hw (loop_button s)) = rx (hw s)"
  by (simp_all add: loop_button_def digitalRead_def digitalWrite_def emit_def delay_def Let_def)

subsection \<open>One iteration\<close>

lemma loop_frame:
  "lastState (loop s) = button (hw s)"
  "pin (P1 (loop s)) = pin (P1 s)"
  "pin (P2 (loop s)) = pin (P2 s)"
  "rx (hw (loop s)) = drop 1 (rx (hw s))"
  "presses (out (hw (loop s))) =
     presses (out (hw s)) + (if lastState s = LOW \<and> button (hw s) = HIGH then 1 else 0)"
  by (simp_all add: loop_def Let_def delay_def loop_blink_frame loop_serial_frame
      loop_button_frame loop_button_out presses_append)

lemma loop_writes:
  assumes "pin (P1 s) = P1_LED_PIN" "pin (P2 s) = P2_LED_PIN"
  shows "writes_to BUTTON_LED (out (hw (loop s))) =
           writes_to BUTTON_LED (out (hw s)) @ [button (hw s)]"
    and "writes_to PI_LED (out (hw (loop s))) =
           writes_to PI_LED (out (hw s)) @
             [if lastState s = LOW \<and> button (hw s) = HIGH then HIGH else LOW]"
  using assms pins_distinct
  by (simp_all add: loop_def Let_def delay_def loop_blink_writes loop_blink_frame
      loop_serial_writes loop_serial_frame loop_button_frame loop_button_out writes_to_append)

lemma loop_modes:
  "(mode (P1 (loop s)), mode (P2 (loop s))) =
     (case rx (hw s) of [] \<Rightarrow> (mode (P1 s), mode (P2 s))
      | c # rest \<Rightarrow> spec_apply (spec_table c) (mode (P1 s), mode (P2 s)))"
  by (simp add: loop_def Let_def loop_blink_frame loop_serial_modes loop_button_frame
      split: list.split)

lemma loop_players:
  "P1 (loop s) =
     fst (updateBlink (P1 (loop_serial (loop_button s))) (clock (hw s))
            (hw (loop_serial (loop_button s))))"
  "P2 (loop s) =
     fst (updateBlink (P2 (loop_serial (loop_button s))) (clock (hw s))
            (snd (updateBlink (P1 (loop_serial (loop_button s))) (clock (hw s))
                    (hw (loop_serial (loop_button s))))))"
  by (simp_all add: loop_def Let_def loop_blink_def split_beta millis_def)

lemma loop_static:
  "mode (P1 (loop_serial (loop_button s))) = OFF_MODE \<or>
   mode (P1 (loop_serial (loop_button s))) = SOLID_ON \<Longrightarrow>
   P1 (loop s) = P1 (loop_serial (loop_button s))"
  "mode (P2 (loop_serial (loop_button s))) = OFF_MODE \<or>
   mode (P2 (loop_serial (loop_button s))) = SOLID_ON \<Longrightarrow>
   P2 (loop s) = P2 (loop_serial (loop_button s))"
  by (simp_all add: loop_players updateBlink_static)

lemma iteration_frame:
  "lastState (iteration e s) = e_button e"
  "pin (P1 (iteration e s)) = pin (P1 s)"
  "pin (P2 (iteration e s)) = pin (P2 s)"
  "presses (out (hw (iteration e s))) =
     presses (out (hw s)) + (if lastState s = LOW \<and> e_button e = HIGH then 1 else 0)"
  by (simp_all add: iteration_def loop_frame arrive_def)

lemma iteration_writes:
  assumes "pin (P1 s) = P1_LED_PIN" "pin (P2 s) = P2_LED_PIN"
  shows "writes_to BUTTON_LED (out (hw (iteration e s))) =
           writes_to BUTTON_LED (out (hw s)) @ [e_button e]"
    and "writes_to PI_LED (out (hw (iteration e s))) =
           writes_to PI_LED (out (hw s)) @
             [if lastState s = LOW \<and> e_button e = HIGH then HIGH else LOW]"
  using assms by (simp_all add: iteration_def loop_writes arrive_def)

subsection \<open>The receive buffer is only touched by the serial part\<close>

lemma loop_button_with_rx: "loop_button (with_rx r s) = with_rx r (loop_button s)"
  by (simp add: loop_button_def with_rx_def digitalRead_def digitalWrite_def emit_def delay_def
      Let_def)

lemma loop_blink_with_rx: "loop_blink now (with_rx r s) = with_rx r (loop_blink now s)"
  by (simp add: loop_blink_def with_rx_def updateBlink_rx split_beta)

lemma with_rx_with_rx: "with_rx r (with_rx r' s) = with_rx r s"
  by (simp add: with_rx_def)

lemma loop_serial_with_rx_unknown:
  "c \<notin> set ''AaBbYX123456'' \<Longrightarrow> loop_serial (with_rx (c # rest) s) = with_rx rest s"
  by (simp add: loop_serial_def Serial_available_def with_rx_def command_unknown)

lemma loop_serial_with_rx_empty: "loop_serial (with_rx [] s) = with_rx [] s"
  by (simp add: loop_serial_def Serial_available_def with_rx_def)

lemma finish_with_rx:
  "(with_rx r s)\<lparr>hw := delay 1 (hw (with_rx r s))\<rparr> = with_rx r (s\<lparr>hw := delay 1 (hw s)\<rparr>)"
  by (simp add: with_rx_def delay_def)

subsection \<open>Start-up and runs\<close>

lemma setup'_frame:
  "lastState (setup' s) = lastState s"
  "pin (P1 (setup' s)) = pin (P1 s)"
  "pin (P2 (setup' s)) = pin (P2 s)"
  "mode (P1 (setup' s)) = mode (P1 s)"
  "mode (P2 (setup' s)) = mode (P2 s)"
  "clock (hw (setup' s)) = clock (hw s)"
  "button (hw (setup' s)) = button (hw s)"
  "rx (hw (setup' s)) = rx (hw s)"
  "presses (out (hw (setup' s))) = presses (out (hw s))"
  by (simp_all add: setup'_def Let_def apply_P1_frame apply_P2_frame pinMode_def
      digitalWrite_def emit_def presses_append)

lemma setup'_writes:
  "p \<noteq> P1_LED_PIN \<Longrightarrow> p \<noteq> P2_LED_PIN \<Longrightarrow> p \<noteq> pin (P1 s) \<Longrightarrow> p \<noteq> pin (P2 s) \<Longrightarrow>
   writes_to p (out (hw (setup' s))) = writes_to p (out (hw s))"
  by (simp add: setup'_def Let_def apply_P1_frame apply_P2_frame pinMode_def
      digitalWrite_def emit_def writes_to_append)

lemma boot_frame:
  "lastState (boot b) = HIGH"
  "pin (P1 (boot b)) = P1_LED_PIN"
  "pin (P2 (boot b)) = P2_LED_PIN"
  "mode (P1 (boot b)) = OFF_MODE"
  "mode (P2 (boot b)) = OFF_MODE"
  "clock (hw (boot b)) = clock b"
  "button (hw (boot b)) = button b"
  "rx (hw (boot b)) = rx b"
  "presses (out (hw (boot b))) = presses (out b)"
  by (simp_all add: boot_def setup'_frame globals_def)

lemma boot_writes:
  "p \<noteq> P1_LED_PIN \<Longrightarrow> p \<noteq> P2_LED_PIN \<Longrightarrow>
   writes_to p (out (hw (boot b))) = writes_to p (out b)"
  by (simp add: boot_def setup'_writes globals_def)

lemma run_no_arrivals:
  "\<forall>e\<in>set envs. e_bytes e = [] \<Longrightarrow>
   rx (hw (run envs s)) = drop (length envs) (rx (hw s)) \<and>
   (mode (P1 (run envs s)), mode (P2 (run envs s))) =
     foldl (\<lambda>ms c. spec_apply (spec_table c) ms) (mode (P1 s), mode (P2 s))
       (take (length envs) (rx (hw s)))"
proof (induction envs arbitrary: s)
  case Nil
  then show ?case by simp
next
  case (Cons e es)
  let ?s = "s\<lparr>hw := arrive e (hw s)\<rparr>"
  have rx0: "rx (hw ?s) = rx (hw s)" using Cons.prems by (simp add: arrive_def)
  have m0: "mode (P1 ?s) = mode (P1 s)" "mode (P2 ?s) = mode (P2 s)" by simp_all
  have rx1: "rx (hw (iteration e s)) = drop 1 (rx (hw s))"
    using rx0 by (simp add: iteration_def loop_frame)
  have m1: "(mode (P1 (iteration e s)), mode (P2 (iteration e s))) =
     (case rx (hw s) of [] \<Rightarrow> (mode (P1 s), mode (P2 s))
      | c # rest \<Rightarrow> spec_apply (spec_table c) (mode (P1 s), mode (P2 s)))"
    unfolding iteration_def loop_modes [of ?s] rx0 m0 ..
  from Cons.prems have "\<forall>e\<in>set es. e_bytes e = []" by simp
  from Cons.IH [OF this, of "iteration e s"] show ?case
    by (cases "rx (hw s)") (simp_all add: rx1 m1)
qed


subsection \<open>What a command does to each LED\<close>

lemma command_P1:
  "c = CHR ''A'' \<or> c = CHR ''Y'' \<Longrightarrow>
     mode (P1 (command c t)) = SOLID_ON \<and> currentLevel (P1 (command c t)) = HIGH"
  "c = CHR ''a'' \<or> c = CHR ''X'' \<Longrightarrow>
     mode (P1 (command c t)) = OFF_MODE \<and> currentLevel (P1 (command c t)) = LOW"
  "mode (P1 (command CHR ''1'' t)) = BLINK_1HZ"
  "mode (P1 (command CHR ''2'' t)) = BLINK_2HZ"
  "mode (P1 (command CHR ''3'' t)) = BLINK_4HZ"
  "c \<notin> set ''AaYX123'' \<Longrightarrow> P1 (command c t) = P1 t"
  by (auto simp: command_def apply_P1_def apply_P2_def applyModeImmediate_def
      digitalWrite_def emit_def millis_def)

lemma command_P2:
  "c = CHR ''B'' \<or> c = CHR ''Y'' \<Longrightarrow>
     mode (P2 (command c t)) = SOLID_ON \<and> currentLevel (P2 (command c t)) = HIGH"
  "c = CHR ''b'' \<or> c = CHR ''X'' \<Longrightarrow>
     mode (P2 (command c t)) = OFF_MODE \<and> currentLevel (P2 (command c t)) = LOW"
  "mode (P2 (command CHR ''4'' t)) = BLINK_1HZ"
  "mode (P2 (command CHR ''5'' t)) = BLINK_2HZ"
  "mode (P2 (command CHR ''6'' t)) = BLINK_4HZ"
  "c \<notin> set ''BbYX456'' \<Longrightarrow> P2 (command c t) = P2 t"
  by (auto simp: command_def apply_P1_def apply_P2_def applyModeImmediate_def
      digitalWrite_def emit_def millis_def)

text \<open>An iteration that reads a byte: the LEDs after the switch, then the blink update.\<close>

lemma iteration_reads:
  assumes "rx (hw s) = c # rest" "e_bytes e = []"
  shows "loop_serial (loop_button (s\<lparr>hw := arrive e (hw s)\<rparr>)) =
           command c (with_rx rest (loop_button (s\<lparr>hw := arrive e (hw s)\<rparr>)))"
    and "rx (hw (iteration e s)) = rest"
    and "mode (P1 (iteration e s)) =
           mode (P1 (command c (with_rx rest (loop_button (s\<lparr>hw := arrive e (hw s)\<rparr>)))))"
    and "mode (P2 (iteration e s)) =
           mode (P2 (command c (with_rx rest (loop_button (s\<lparr>hw := arrive e (hw s)\<rparr>)))))"
proof -
  let ?s = "s\<lparr>hw := arrive e (hw s)\<rparr>"
  have rx: "rx (hw (loop_button ?s)) = c # rest"
    using assms by (simp add: loop_button_frame arrive_def)
  show ser: "loop_serial (loop_button ?s) = command c (with_rx rest (loop_button ?s))"
    by (rule loop_serial_cons [OF rx])
  show "rx (hw (iteration e s)) = rest"
    using rx by (simp add: iteration_def loop_frame loop_button_frame)
  show "mode (P1 (iteration e s)) = mode (P1 (command c (with_rx rest (loop_button ?s))))"
    by (simp add: iteration_def loop_players updateBlink_frame ser)
  show "mode (P2 (iteration e s)) = mode (P2 (command c (with_rx rest (loop_button ?s))))"
    by (simp add: iteration_def loop_players updateBlink_frame ser)
qed

lemma iteration_static_level:
  assumes "rx (hw s) = c # rest" "e_bytes e = []"
  shows "c = CHR ''A'' \<or> c = CHR ''Y'' \<Longrightarrow> currentLevel (P1 (iteration e s)) = HIGH"
    and "c = CHR ''a'' \<or> c = CHR ''X'' \<Longrightarrow> currentLevel (P1 (iteration e s)) = LOW"
    and "c = CHR ''B'' \<or> c = CHR ''Y'' \<Longrightarrow> currentLevel (P2 (iteration e s)) = HIGH"
    and "c = CHR ''b'' \<or> c = CHR ''X'' \<Longrightarrow> currentLevel (P2 (iteration e s)) = LOW"
  using iteration_reads(1) [OF assms]
  by (simp_all add: iteration_def loop_static command_P1 command_P2)

lemma iteration_modes:
  assumes "rx (hw s) = c # rest" "e_bytes e = []"
  shows "mode (P1 (iteration e s)) = mode (P1 (command c s))"
    and "mode (P2 (iteration e s)) = mode (P2 (command c s))"
  using iteration_reads(3,4) [OF assms]
  by (simp_all add: command_modes with_rx_def loop_button_frame)

lemma iteration_other_led:
  assumes "rx (hw s) = c # rest" "e_bytes e = []"
  shows "c \<notin> set ''AaYX123'' \<Longrightarrow> mode (P1 s) = OFF_MODE \<or> mode (P1 s) = SOLID_ON \<Longrightarrow>
           P1 (iteration e s) = P1 s"
    and "c \<notin> set ''BbYX456'' \<Longrightarrow> mode (P2 s) = OFF_MODE \<or> mode (P2 s) = SOLID_ON \<Longrightarrow>
           P2 (iteration e s) = P2 s"
proof -
  define t where "t = with_rx rest (loop_button (s\<lparr>hw := arrive e (hw s)\<rparr>))"
  have ser: "loop_serial (loop_button (s\<lparr>hw := arrive e (hw s)\<rparr>)) = command c t"
    unfolding t_def by (rule iteration_reads(1) [OF assms])
  have t: "P1 t = P1 s" "P2 t = P2 s"
    by (simp_all add: t_def with_rx_def loop_button_frame)
  show "P1 (iteration e s) = P1 s"
    if "c \<notin> set ''AaYX123''" "mode (P1 s) = OFF_MODE \<or> mode (P1 s) = SOLID_ON"
    using that command_P1(6) [OF that(1), of t]
    by (simp add: iteration_def loop_static ser t)
  show "P2 (iteration e s) = P2 s"
    if "c \<notin> set ''BbYX456''" "mode (P2 s) = OFF_MODE \<or> mode (P2 s) = SOLID_ON"
    using that command_P2(6) [OF that(1), of t]
    by (simp add: iteration_def loop_static ser t)
qed

text \<open>Every definition of the sketch and of the sample inputs, for evaluating runs.\<close>

lemmas sketch_defs = iteration_def arrive_def loop_def Let_def loop_button_def loop_serial_def
  Serial_available_def command_def loop_blink_def updateBlink_def apply_P1_def apply_P2_def
  applyModeImmediate_def digitalWrite_def digitalRead_def emit_def millis_def delay_def
  boot_def setup'_def globals_def pinMode_def fresh_board_def sample_def sample_with_def
  modeToInterval_def P1_LED_PIN_def P2_LED_PIN_def BUTTON_LED_def PI_LED_def LED_BUILTIN_def
  BUTTON_PIN_def

section \<open>The blink timer\<close>

text \<open>
  Claim C1. For an LED in a blink mode, whose period is 500 (\<open>BLINK_1HZ\<close>), 250
  (\<open>BLINK_2HZ\<close>) or 125 (\<open>BLINK_4HZ\<close>), \<open>updateBlink pl now\<close> flips the level, writes
  the new level to the LED's pin and sets \<open>lastToggleMs\<close> to \<open>now\<close> exactly when
  \<open>now - lastToggleMs pl\<close> is at least the period, and does nothing otherwise. However
  long ago the last toggle was, one call flips once and writes once. The difference is
  that of \<open>unsigned long\<close>; when the clock has not wrapped since the last toggle it is the
  difference of the two readings as numbers.
\<close>

theorem updateBlink_blink:
  assumes "mode pl = BLINK_1HZ \<or> mode pl = BLINK_2HZ \<or> mode pl = BLINK_4HZ"
  shows "modeToInterval BLINK_1HZ = 500 \<and> modeToInterval BLINK_2HZ = 250 \<and>
         modeToInterval BLINK_4HZ = 125 \<and>
         updateBlink pl now b =
           (if modeToInterval (mode pl) \<le> now - lastToggleMs pl then
              (pl\<lparr>currentLevel := (if currentLevel pl = LOW then HIGH else LOW),
                  lastToggleMs := now\<rparr>,
               b\<lparr>out := out b @
                  [DigitalWrite (pin pl) (if currentLevel pl = LOW then HIGH else LOW)]\<rparr>)
            else (pl, b)) \<and>
         (currentLevel (fst (updateBlink pl now b)) \<noteq> currentLevel pl) =
           (modeToInterval (mode pl) \<le> now - lastToggleMs pl) \<and>
         (lastToggleMs pl \<le> now \<longrightarrow>
            (modeToInterval (mode pl) \<le> now - lastToggleMs pl) =
            (unat (modeToInterval (mode pl)) \<le> unat now - unat (lastToggleMs pl)))"
proof -
  have flip: "(if currentLevel pl = LOW then HIGH else LOW) \<noteq> currentLevel pl"
    by (cases "currentLevel pl") simp_all
  have step: "updateBlink pl now b =
           (if modeToInterval (mode pl) \<le> now - lastToggleMs pl then
              (pl\<lparr>currentLevel := (if currentLevel pl = LOW then HIGH else LOW),
                  lastToggleMs := now\<rparr>,
               b\<lparr>out := out b @
                  [DigitalWrite (pin pl) (if currentLevel pl = LOW then HIGH else LOW)]\<rparr>)
            else (pl, b))"
    using assms updateBlink_due [OF assms, of now b] updateBlink_wait [of now pl b]
    by (simp add: not_le)
  have iff: "(currentLevel (fst (updateBlink pl now b)) \<noteq> currentLevel pl) =
           (modeToInterval (mode pl) \<le> now - lastToggleMs pl)"
    using flip by (simp add: step)
  have nowrap: "lastToggleMs pl \<le> now \<longrightarrow>
            (modeToInterval (mode pl) \<le> now - lastToggleMs pl) =
            (unat (modeToInterval (mode pl)) \<le> unat now - unat (lastToggleMs pl))"
    by (simp add: word_le_nat_alt unat_sub)
  show ?thesis using step iff nowrap by (simp add: interval_values)
qed

text \<open>
  An LED in \<open>BLINK_2HZ\<close> last toggled at 1000: nothing at 1249, a flip at 1250, and one
  flip only at 5000, sixteen periods late.
\<close>

theorem updateBlink_blink_witness:
  "updateBlink (led16 BLINK_2HZ) 1249 (fresh_board 1249 LOW []) =
     (led16 BLINK_2HZ, fresh_board 1249 LOW []) \<and>
   updateBlink (led16 BLINK_2HZ) 1250 (fresh_board 1250 LOW []) =
     (\<lparr>pin = 16, mode = BLINK_2HZ, lastToggleMs = 1250, currentLevel = HIGH\<rparr>,
      \<lparr>clock = 1250, button = LOW, rx = [], out = [DigitalWrite 16 HIGH]\<rparr>) \<and>
   updateBlink (led16 BLINK_2HZ) 5000 (fresh_board 5000 LOW []) =
     (\<lparr>pin = 16, mode = BLINK_2HZ, lastToggleMs = 5000, currentLevel = HIGH\<rparr>,
      \<lparr>clock = 5000, button = LOW, rx = [], out = [DigitalWrite 16 HIGH]\<rparr>)"
  using updateBlink_blink [of "led16 BLINK_2HZ" 1249 "fresh_board 1249 LOW []"]
    updateBlink_blink [of "led16 BLINK_2HZ" 1250 "fresh_board 1250 LOW []"]
    updateBlink_blink [of "led16 BLINK_2HZ" 5000 "fresh_board 5000 LOW []"]
  by (simp add: led16_def fresh_board_def interval_values)

text \<open>
  Setting a blink mode, on the two functions alone. \<open>pl.mode = m; applyModeImmediate(pl)\<close>
  when the clock reads \<open>T = clock b\<close> leaves the level as it was and writes nothing;
  it sets \<open>lastToggleMs\<close> to \<open>T\<close>. Whatever the LED's mode, level and last toggle
  were before, an \<open>updateBlink\<close> at \<open>T + p - 1\<close> does not flip (nor does one at any
  \<open>now\<close> with \<open>now - T < p\<close>), and one at \<open>T + p\<close> flips, \<open>p\<close> being the period of
  the new mode. This is about calls whose \<open>now\<close> is not before \<open>T\<close>; the last section
  shows that \<open>loop()\<close> makes a call that is.
\<close>

lemma set_blink_mode_restarts_period:
  assumes m: "m = BLINK_1HZ \<or> m = BLINK_2HZ \<or> m = BLINK_4HZ"
    and ap: "applyModeImmediate (pl\<lparr>mode := m\<rparr>) b = (pl', b')"
  shows "currentLevel pl' = currentLevel pl \<and> b' = b \<and>
         mode pl' = m \<and> lastToggleMs pl' = clock b \<and>
         updateBlink pl' (clock b + modeToInterval m - 1) b2 = (pl', b2) \<and>
         updateBlink pl' (clock b + modeToInterval m) b2 =
           (pl'\<lparr>currentLevel := (if currentLevel pl = LOW then HIGH else LOW),
                lastToggleMs := clock b + modeToInterval m\<rparr>,
            b2\<lparr>out := out b2 @
                [DigitalWrite (pin pl) (if currentLevel pl = LOW then HIGH else LOW)]\<rparr>) \<and>
         (\<forall>now. now - clock b < modeToInterval m \<longrightarrow> updateBlink pl' now b2 = (pl', b2))"
proof -
  from m ap have pl': "pl' = pl\<lparr>mode := m, lastToggleMs := clock b\<rparr>" and b': "b' = b"
    by (auto simp: applyModeImmediate_blink)
  have before: "updateBlink pl' (clock b + modeToInterval m - 1) b2 = (pl', b2)"
  proof (rule updateBlink_wait)
    have "clock b + modeToInterval m - 1 - lastToggleMs pl' = modeToInterval m - 1"
      by (simp add: pl')
    moreover have "modeToInterval m - 1 < modeToInterval m"
      using m by (auto simp: interval_values)
    ultimately show "clock b + modeToInterval m - 1 - lastToggleMs pl' < modeToInterval (mode pl')"
      by (simp add: pl')
  qed
  have at: "updateBlink pl' (clock b + modeToInterval m) b2 =
           (pl'\<lparr>currentLevel := (if currentLevel pl = LOW then HIGH else LOW),
                lastToggleMs := clock b + modeToInterval m\<rparr>,
            b2\<lparr>out := out b2 @
                [DigitalWrite (pin pl) (if currentLevel pl = LOW then HIGH else LOW)]\<rparr>)"
    using m updateBlink_due [of pl' "clock b + modeToInterval m" b2]
    by (simp add: pl')
  have within: "\<forall>now. now - clock b < modeToInterval m \<longrightarrow> updateBlink pl' now b2 = (pl', b2)"
    using updateBlink_wait [of _ pl' b2] by (simp add: pl')
  show ?thesis using before at within by (simp add: pl' b')
qed

text \<open>
  In \<open>BLINK_1HZ\<close> with the last toggle at 1000, \<open>BLINK_2HZ\<close> is set at 1400: no flip at
  1649, a flip at 1650.
\<close>

lemma set_blink_mode_restarts_period_example:
  "applyModeImmediate ((led16 BLINK_1HZ)\<lparr>mode := BLINK_2HZ\<rparr>) (fresh_board 1400 LOW []) =
     (\<lparr>pin = 16, mode = BLINK_2HZ, lastToggleMs = 1400, currentLevel = LOW\<rparr>,
      fresh_board 1400 LOW []) \<and>
   updateBlink \<lparr>pin = 16, mode = BLINK_2HZ, lastToggleMs = 1400, currentLevel = LOW\<rparr>
       1649 (fresh_board 1649 LOW []) =
     (\<lparr>pin = 16, mode = BLINK_2HZ, lastToggleMs = 1400, currentLevel = LOW\<rparr>,
      fresh_board 1649 LOW []) \<and>
   updateBlink \<lparr>pin = 16, mode = BLINK_2HZ, lastToggleMs = 1400, currentLevel = LOW\<rparr>
       1650 (fresh_board 1650 LOW []) =
     (\<lparr>pin = 16, mode = BLINK_2HZ, lastToggleMs = 1650, currentLevel = HIGH\<rparr>,
      \<lparr>clock = 1650, button = LOW, rx = [], out = [DigitalWrite 16 HIGH]\<rparr>)"
proof -
  have ap: "applyModeImmediate ((led16 BLINK_1HZ)\<lparr>mode := BLINK_2HZ\<rparr>) (fresh_board 1400 LOW []) =
     (\<lparr>pin = 16, mode = BLINK_2HZ, lastToggleMs = 1400, currentLevel = LOW\<rparr>,
      fresh_board 1400 LOW [])"
    by (simp add: applyModeImmediate_def millis_def led16_def fresh_board_def)
  have m: "BLINK_2HZ = BLINK_1HZ \<or> BLINK_2HZ = BLINK_2HZ \<or> BLINK_2HZ = BLINK_4HZ"
    by simp
  show ?thesis
    using ap set_blink_mode_restarts_period [OF m ap, of "fresh_board 1649 LOW []"]
      set_blink_mode_restarts_period [OF m ap, of "fresh_board 1650 LOW []"]
    by (simp add: led16_def fresh_board_def interval_values)
qed

text \<open>
  Claim C8. For an LED in a blink mode, \<open>updateBlink\<close> at a \<open>now\<close> with
  \<open>now - lastToggleMs pl\<close> below the period changes neither the LED nor the board, and
  any number of such calls one after the other leaves both as they were.
\<close>

theorem tick_below_threshold_is_noop:
  assumes "mode pl = BLINK_1HZ \<or> mode pl = BLINK_2HZ \<or> mode pl = BLINK_4HZ"
    and "\<forall>now\<in>set nows. now - lastToggleMs pl < modeToInterval (mode pl)"
  shows "(\<forall>now\<in>set nows. updateBlink pl now b = (pl, b)) \<and> ticks nows (pl, b) = (pl, b)"
  using assms(2) by (simp add: updateBlink_wait ticks_wait)

text \<open>\<open>BLINK_1HZ\<close>, last toggle at 1000, called at 1000, 1250, 1499 and 1250 again.\<close>

theorem tick_below_threshold_is_noop_witness:
  "updateBlink (led16 BLINK_1HZ) 1499 (fresh_board 1499 LOW []) =
     (led16 BLINK_1HZ, fresh_board 1499 LOW []) \<and>
   ticks [1000, 1250, 1499, 1250] (led16 BLINK_1HZ, fresh_board 1000 LOW []) =
     (led16 BLINK_1HZ, fresh_board 1000 LOW [])"
  using tick_below_threshold_is_noop [of "led16 BLINK_1HZ" "[1499]" "fresh_board 1499 LOW []"]
    tick_below_threshold_is_noop [of "led16 BLINK_1HZ" "[1000, 1250, 1499, 1250]"
      "fresh_board 1000 LOW []"]
  by (simp add: led16_def interval_values)

section \<open>The static modes\<close>

text \<open>
  Claim C4. Setting \<open>OFF_MODE\<close> makes the level \<open>LOW\<close> and writes \<open>LOW\<close> to the LED's
  pin at once; setting \<open>SOLID_ON\<close> makes it \<open>HIGH\<close> and writes \<open>HIGH\<close>. In either mode
  \<open>updateBlink\<close> does nothing, at any clock value, so after any sequence of calls the LED
  and the board are as the mode change left them.
\<close>

theorem static_modes_hold_level:
  "applyModeImmediate (pl\<lparr>mode := OFF_MODE\<rparr>) b =
     (pl\<lparr>mode := OFF_MODE, currentLevel := LOW, lastToggleMs := clock b\<rparr>,
      b\<lparr>out := out b @ [DigitalWrite (pin pl) LOW]\<rparr>) \<and>
   applyModeImmediate (pl\<lparr>mode := SOLID_ON\<rparr>) b =
     (pl\<lparr>mode := SOLID_ON, currentLevel := HIGH, lastToggleMs := clock b\<rparr>,
      b\<lparr>out := out b @ [DigitalWrite (pin pl) HIGH]\<rparr>) \<and>
   (mode q = OFF_MODE \<or> mode q = SOLID_ON \<longrightarrow>
      updateBlink q now c = (q, c) \<and> ticks nows (q, c) = (q, c)) \<and>
   ticks nows (applyModeImmediate (pl\<lparr>mode := OFF_MODE\<rparr>) b) =
     applyModeImmediate (pl\<lparr>mode := OFF_MODE\<rparr>) b \<and>
   ticks nows (applyModeImmediate (pl\<lparr>mode := SOLID_ON\<rparr>) b) =
     applyModeImmediate (pl\<lparr>mode := SOLID_ON\<rparr>) b"
  by (simp add: applyModeImmediate_off applyModeImmediate_solid updateBlink_static ticks_static)

text \<open>A blinking LED is switched to solid at 2000 and to off at 2000, then ticked.\<close>

theorem static_modes_hold_level_witness:
  "ticks [2000, 2125, 2500, 4000000000]
      (applyModeImmediate ((led16 BLINK_4HZ)\<lparr>mode := SOLID_ON\<rparr>) (fresh_board 2000 LOW [])) =
     (\<lparr>pin = 16, mode = SOLID_ON, lastToggleMs = 2000, currentLevel = HIGH\<rparr>,
      \<lparr>clock = 2000, button = LOW, rx = [], out = [DigitalWrite 16 HIGH]\<rparr>) \<and>
   ticks [2000, 2125, 2500, 4000000000]
      (applyModeImmediate ((led16 BLINK_4HZ)\<lparr>mode := OFF_MODE\<rparr>) (fresh_board 2000 LOW [])) =
     (\<lparr>pin = 16, mode = OFF_MODE, lastToggleMs = 2000, currentLevel = LOW\<rparr>,
      \<lparr>clock = 2000, button = LOW, rx = [], out = [DigitalWrite 16 LOW]\<rparr>) \<and>
   updateBlink \<lparr>pin = 16, mode = SOLID_ON, lastToggleMs = 2000, currentLevel = HIGH\<rparr>
      2500 (fresh_board 2500 LOW []) =
     (\<lparr>pin = 16, mode = SOLID_ON, lastToggleMs = 2000, currentLevel = HIGH\<rparr>,
      fresh_board 2500 LOW [])"
proof -
  note th = static_modes_hold_level [where pl = "led16 BLINK_4HZ"
      and b = "fresh_board 2000 LOW []" and nows = "[2000, 2125, 2500, 4000000000]"
      and q = "\<lparr>pin = 16, mode = SOLID_ON, lastToggleMs = 2000, currentLevel = HIGH\<rparr>"
      and now = 2500 and c = "fresh_board 2500 LOW []"]
  have off: "applyModeImmediate ((led16 BLINK_4HZ)\<lparr>mode := OFF_MODE\<rparr>) (fresh_board 2000 LOW []) =
     (\<lparr>pin = 16, mode = OFF_MODE, lastToggleMs = 2000, currentLevel = LOW\<rparr>,
      \<lparr>clock = 2000, button = LOW, rx = [], out = [DigitalWrite 16 LOW]\<rparr>)"
    using th [THEN conjunct1] by (simp add: led16_def fresh_board_def)
  have solid: "applyModeImmediate ((led16 BLINK_4HZ)\<lparr>mode := SOLID_ON\<rparr>) (fresh_board 2000 LOW []) =
     (\<lparr>pin = 16, mode = SOLID_ON, lastToggleMs = 2000, currentLevel = HIGH\<rparr>,
      \<lparr>clock = 2000, button = LOW, rx = [], out = [DigitalWrite 16 HIGH]\<rparr>)"
    using th [THEN conjunct2, THEN conjunct1] by (simp add: led16_def fresh_board_def)
  have still: "updateBlink \<lparr>pin = 16, mode = SOLID_ON, lastToggleMs = 2000, currentLevel = HIGH\<rparr>
      2500 (fresh_board 2500 LOW []) =
     (\<lparr>pin = 16, mode = SOLID_ON, lastToggleMs = 2000, currentLevel = HIGH\<rparr>,
      fresh_board 2500 LOW [])"
    using th [THEN conjunct2, THEN conjunct2, THEN conjunct1] by simp
  have t_off: "ticks [2000, 2125, 2500, 4000000000]
      (applyModeImmediate ((led16 BLINK_4HZ)\<lparr>mode := OFF_MODE\<rparr>) (fresh_board 2000 LOW [])) =
      applyModeImmediate ((led16 BLINK_4HZ)\<lparr>mode := OFF_MODE\<rparr>) (fresh_board 2000 LOW [])"
    by (rule th [THEN conjunct2, THEN conjunct2, THEN conjunct2, THEN conjunct1])
  have t_solid: "ticks [2000, 2125, 2500, 4000000000]
      (applyModeImmediate ((led16 BLINK_4HZ)\<lparr>mode := SOLID_ON\<rparr>) (fresh_board 2000 LOW [])) =
      applyModeImmediate ((led16 BLINK_4HZ)\<lparr>mode := SOLID_ON\<rparr>) (fresh_board 2000 LOW [])"
    by (rule th [THEN conjunct2, THEN conjunct2, THEN conjunct2, THEN conjunct2])
  show ?thesis
    unfolding t_off t_solid using off solid still by (intro conjI)
qed

text \<open>
  The level a blink mode starts from, on the two functions alone. Setting one of the
  three blink modes changes the LED's \<open>mode\<close> and \<open>lastToggleMs\<close> and nothing else: the
  level stays and nothing is written. For calls of \<open>updateBlink\<close> whose \<open>now\<close> is not
  before the mode change: coming from \<open>OFF_MODE\<close> the LED is \<open>LOW\<close>, stays \<open>LOW\<close>
  through the first period and is \<open>HIGH\<close> after the first flip; coming from \<open>SOLID_ON\<close>
  it is \<open>HIGH\<close> through the first period and \<open>LOW\<close> after the first flip.
\<close>

lemma blink_mode_inherits_level:
  assumes m: "m = BLINK_1HZ \<or> m = BLINK_2HZ \<or> m = BLINK_4HZ"
  shows "applyModeImmediate (pl\<lparr>mode := m\<rparr>) b = (pl\<lparr>mode := m, lastToggleMs := clock b\<rparr>, b) \<and>
    (let off = fst (applyModeImmediate (pl\<lparr>mode := OFF_MODE\<rparr>) b0);
         r = fst (applyModeImmediate (off\<lparr>mode := m\<rparr>) b)
     in currentLevel r = LOW \<and>
        (\<forall>now. now - clock b < modeToInterval m \<longrightarrow>
               currentLevel (fst (updateBlink r now b2)) = LOW) \<and>
        (\<forall>now. modeToInterval m \<le> now - clock b \<longrightarrow>
               currentLevel (fst (updateBlink r now b2)) = HIGH)) \<and>
    (let on = fst (applyModeImmediate (pl\<lparr>mode := SOLID_ON\<rparr>) b0);
         r = fst (applyModeImmediate (on\<lparr>mode := m\<rparr>) b)
     in currentLevel r = HIGH \<and>
        (\<forall>now. now - clock b < modeToInterval m \<longrightarrow>
               currentLevel (fst (updateBlink r now b2)) = HIGH) \<and>
        (\<forall>now. modeToInterval m \<le> now - clock b \<longrightarrow>
               currentLevel (fst (updateBlink r now b2)) = LOW))"
  using m
  by (simp add: Let_def applyModeImmediate_blink applyModeImmediate_off applyModeImmediate_solid
      updateBlink_wait updateBlink_due)

text \<open>
  \<open>BLINK_4HZ\<close> set at 3000 on an LED that was switched off, and on one that was switched
  on: the level is kept at 3124 and flipped at 3125.
\<close>

lemma blink_mode_inherits_level_example:
  "applyModeImmediate ((led16 OFF_MODE)\<lparr>mode := BLINK_4HZ\<rparr>) (fresh_board 3000 LOW []) =
     (\<lparr>pin = 16, mode = BLINK_4HZ, lastToggleMs = 3000, currentLevel = LOW\<rparr>,
      fresh_board 3000 LOW []) \<and>
   currentLevel (fst (updateBlink
      (fst (applyModeImmediate
         ((fst (applyModeImmediate ((led16 BLINK_1HZ)\<lparr>mode := OFF_MODE\<rparr>) (fresh_board 0 LOW [])))
            \<lparr>mode := BLINK_4HZ\<rparr>) (fresh_board 3000 LOW [])))
      3124 (fresh_board 3124 LOW []))) = LOW \<and>
   currentLevel (fst (updateBlink
      (fst (applyModeImmediate
         ((fst (applyModeImmediate ((led16 BLINK_1HZ)\<lparr>mode := OFF_MODE\<rparr>) (fresh_board 0 LOW [])))
            \<lparr>mode := BLINK_4HZ\<rparr>) (fresh_board 3000 LOW [])))
      3125 (fresh_board 3125 LOW []))) = HIGH \<and>
   currentLevel (fst (updateBlink
      (fst (applyModeImmediate
         ((fst (applyModeImmediate ((led16 BLINK_1HZ)\<lparr>mode := SOLID_ON\<rparr>) (fresh_board 0 LOW [])))
            \<lparr>mode := BLINK_4HZ\<rparr>) (fresh_board 3000 LOW [])))
      3124 (fresh_board 3124 LOW []))) = HIGH \<and>
   currentLevel (fst (updateBlink
      (fst (applyModeImmediate
         ((fst (applyModeImmediate ((led16 BLINK_1HZ)\<lparr>mode := SOLID_ON\<rparr>) (fresh_board 0 LOW [])))
            \<lparr>mode := BLINK_4HZ\<rparr>) (fresh_board 3000 LOW [])))
      3125 (fresh_board 3125 LOW []))) = LOW"
proof -
  have m: "BLINK_4HZ = BLINK_1HZ \<or> BLINK_4HZ = BLINK_2HZ \<or> BLINK_4HZ = BLINK_4HZ"
    by simp
  have t: "(3124 :: ulong) - 3000 < 125" "(125 :: ulong) \<le> 3125 - 3000"
    by simp_all
  note at_3124 = blink_mode_inherits_level [OF m, where b = "fresh_board 3000 LOW []"
      and pl = "led16 BLINK_1HZ" and ?b0.0 = "fresh_board 0 LOW []"
      and ?b2.0 = "fresh_board 3124 LOW []"]
  note at_3125 = blink_mode_inherits_level [OF m, where b = "fresh_board 3000 LOW []"
      and pl = "led16 BLINK_1HZ" and ?b0.0 = "fresh_board 0 LOW []"
      and ?b2.0 = "fresh_board 3125 LOW []"]
  note frame = blink_mode_inherits_level [OF m, where b = "fresh_board 3000 LOW []"
      and pl = "led16 OFF_MODE"]
  have clk: "clock (fresh_board 3000 LOW []) = 3000"
    by (simp add: fresh_board_def)
  show ?thesis
    using at_3124 [unfolded Let_def clk interval_values, THEN conjunct2, THEN conjunct1,
        THEN conjunct2, THEN conjunct1, rule_format, OF t(1)]
      at_3125 [unfolded Let_def clk interval_values, THEN conjunct2, THEN conjunct1,
        THEN conjunct2, THEN conjunct2, rule_format, OF t(2)]
      at_3124 [unfolded Let_def clk interval_values, THEN conjunct2, THEN conjunct2,
        THEN conjunct2, THEN conjunct1, rule_format, OF t(1)]
      at_3125 [unfolded Let_def clk interval_values, THEN conjunct2, THEN conjunct2,
        THEN conjunct2, THEN conjunct2, rule_format, OF t(2)]
      frame [THEN conjunct1]
    by (simp add: led16_def fresh_board_def)
qed

section \<open>The button\<close>

text \<open>
  Claim C5. Whatever the previous sample and the level read, the button part of the loop
  writes exactly the level read to the mirror LED, and takes the press branch (status LED
  \<open>HIGH\<close>, key press, release) exactly when the previous sample is \<open>LOW\<close> and the level
  read is \<open>HIGH\<close>; the sample becomes the previous one. So when the button reads
  \<open>LOW, LOW, HIGH, HIGH, LOW\<close> in five iterations, whatever else happens in them, a key
  is pressed in the third only, and the mirror LED is written \<open>LOW, LOW, HIGH, HIGH, LOW\<close>.
\<close>

theorem button_monitor_edge_and_mirror:
  "out (hw (loop_button s)) =
     out (hw s) @ [DigitalWrite BUTTON_LED (button (hw s))] @
       (if lastState s = LOW \<and> button (hw s) = HIGH
        then [DigitalWrite PI_LED HIGH, KeyPress CHR '' '', KeyReleaseAll]
        else [DigitalWrite PI_LED LOW]) \<and>
   lastState (loop_button s) = button (hw s) \<and>
   (pin (P1 s) = P1_LED_PIN \<and> pin (P2 s) = P2_LED_PIN \<and>
    map e_button envs = [LOW, LOW, HIGH, HIGH, LOW] \<longrightarrow>
      map (\<lambda>t. presses (out (hw t))) (run_states envs s) =
        map (\<lambda>k. presses (out (hw s)) + k) [0, 0, 1, 1, 1] \<and>
      writes_to BUTTON_LED (out (hw (run envs s))) =
        writes_to BUTTON_LED (out (hw s)) @ [LOW, LOW, HIGH, HIGH, LOW] \<and>
      writes_to PI_LED (out (hw (run envs s))) =
        writes_to PI_LED (out (hw s)) @ [LOW, LOW, HIGH, LOW, LOW])"
proof -
  have seq: "map (\<lambda>t. presses (out (hw t))) (run_states envs s) =
        map (\<lambda>k. presses (out (hw s)) + k) [0, 0, 1, 1, 1] \<and>
      writes_to BUTTON_LED (out (hw (run envs s))) =
        writes_to BUTTON_LED (out (hw s)) @ [LOW, LOW, HIGH, HIGH, LOW] \<and>
      writes_to PI_LED (out (hw (run envs s))) =
        writes_to PI_LED (out (hw s)) @ [LOW, LOW, HIGH, LOW, LOW]"
    if pins: "pin (P1 s) = P1_LED_PIN" "pin (P2 s) = P2_LED_PIN"
      and btn: "map e_button envs = [LOW, LOW, HIGH, HIGH, LOW]"
  proof -
    from btn obtain e1 e2 e3 e4 e5 where envs: "envs = [e1, e2, e3, e4, e5]"
      and b: "e_button e1 = LOW" "e_button e2 = LOW" "e_button e3 = HIGH"
             "e_button e4 = HIGH" "e_button e5 = LOW"
      by (auto simp: map_eq_Cons_conv)
    show ?thesis
      using pins b by (simp add: envs iteration_frame iteration_writes)
  qed
  show ?thesis
    using seq by (simp add: loop_button_out loop_button_frame)
qed

text \<open>The five samples after power-on, one millisecond apart.\<close>

theorem button_monitor_edge_and_mirror_witness:
  "map (\<lambda>t. presses (out (hw t)))
      (run_states (map sample [LOW, LOW, HIGH, HIGH, LOW]) (boot (fresh_board 0 LOW []))) =
     [0, 0, 1, 1, 1] \<and>
   writes_to BUTTON_LED
      (out (hw (run (map sample [LOW, LOW, HIGH, HIGH, LOW]) (boot (fresh_board 0 LOW []))))) =
     [LOW, LOW, HIGH, HIGH, LOW] \<and>
   writes_to PI_LED
      (out (hw (run (map sample [LOW, LOW, HIGH, HIGH, LOW]) (boot (fresh_board 0 LOW []))))) =
     [LOW, LOW, HIGH, LOW, LOW] \<and>
   out (hw (loop_button (boot (fresh_board 0 HIGH [])\<lparr>lastState := LOW\<rparr>))) =
     out (hw (boot (fresh_board 0 HIGH []))) @
       [DigitalWrite BUTTON_LED HIGH, DigitalWrite PI_LED HIGH, KeyPress CHR '' '', KeyReleaseAll]"
proof -
  have btn: "map e_button (map sample [LOW, LOW, HIGH, HIGH, LOW]) = [LOW, LOW, HIGH, HIGH, LOW]"
    by (simp add: sample_def)
  have start: "presses (out (hw (boot (fresh_board 0 LOW [])))) = 0"
    "writes_to BUTTON_LED (out (hw (boot (fresh_board 0 LOW [])))) = []"
    "writes_to PI_LED (out (hw (boot (fresh_board 0 LOW [])))) = []"
    by (simp_all add: boot_frame boot_writes pins_distinct fresh_board_def)
  have press: "button (hw (boot (fresh_board 0 HIGH [])\<lparr>lastState := LOW\<rparr>)) = HIGH"
    by (simp add: boot_frame fresh_board_def)
  from button_monitor_edge_and_mirror
    [of "boot (fresh_board 0 LOW [])" "map sample [LOW, LOW, HIGH, HIGH, LOW]"]
  have "map (\<lambda>t. presses (out (hw t)))
      (run_states (map sample [LOW, LOW, HIGH, HIGH, LOW]) (boot (fresh_board 0 LOW []))) =
     [0, 0, 1, 1, 1] \<and>
   writes_to BUTTON_LED
      (out (hw (run (map sample [LOW, LOW, HIGH, HIGH, LOW]) (boot (fresh_board 0 LOW []))))) =
     [LOW, LOW, HIGH, HIGH, LOW] \<and>
   writes_to PI_LED
      (out (hw (run (map sample [LOW, LOW, HIGH, HIGH, LOW]) (boot (fresh_board 0 LOW []))))) =
     [LOW, LOW, HIGH, LOW, LOW]"
    using start btn by (simp add: boot_frame fresh_board_def)
  moreover from button_monitor_edge_and_mirror
    [of "boot (fresh_board 0 HIGH [])\<lparr>lastState := LOW\<rparr>" "[]"]
  have "out (hw (loop_button (boot (fresh_board 0 HIGH [])\<lparr>lastState := LOW\<rparr>))) =
     out (hw (boot (fresh_board 0 HIGH []))) @
       [DigitalWrite BUTTON_LED HIGH, DigitalWrite PI_LED HIGH, KeyPress CHR '' '', KeyReleaseAll]"
    unfolding press by simp
  ultimately show ?thesis by simp
qed



section \<open>Serial commands\<close>

text \<open>
  Claim C6. The command \<open>Y\<close> followed by the command \<open>b\<close> leaves \<open>P1\<close> in \<open>SOLID_ON\<close>
  with level \<open>HIGH\<close> and \<open>P2\<close> in \<open>OFF_MODE\<close> with level \<open>LOW\<close>, at the switch and over
  the two loop iterations that read the two bytes. In general, for any two bytes \<open>c1\<close>
  then \<open>c2\<close> and each LED: when \<open>c2\<close> is a command for that LED, the LED ends in the mode
  \<open>c2\<close> names (and, for \<open>SOLID_ON\<close> and \<open>OFF_MODE\<close>, at its level), whatever \<open>c1\<close> was,
  \<open>Y\<close> and \<open>X\<close> included; when \<open>c2\<close> is no command for that LED, the LED stays as
  \<open>c1\<close> left it. The same modes and levels result when the two bytes are read by two
  loop iterations.
\<close>

theorem later_command_wins:
  "mode (P1 (command CHR ''b'' (command CHR ''Y'' s))) = SOLID_ON \<and>
   currentLevel (P1 (command CHR ''b'' (command CHR ''Y'' s))) = HIGH \<and>
   mode (P2 (command CHR ''b'' (command CHR ''Y'' s))) = OFF_MODE \<and>
   currentLevel (P2 (command CHR ''b'' (command CHR ''Y'' s))) = LOW \<and>
   out (hw (command CHR ''b'' (command CHR ''Y'' s))) =
     out (hw s) @ [DigitalWrite (pin (P1 s)) HIGH, DigitalWrite (pin (P2 s)) HIGH,
                   DigitalWrite (pin (P2 s)) LOW] \<and>
   (rx (hw s) = ''Yb'' \<and> e_bytes e1 = [] \<and> e_bytes e2 = [] \<longrightarrow>
      mode (P1 (run [e1, e2] s)) = SOLID_ON \<and>
      currentLevel (P1 (run [e1, e2] s)) = HIGH \<and>
      mode (P2 (run [e1, e2] s)) = OFF_MODE \<and>
      currentLevel (P2 (run [e1, e2] s)) = LOW \<and>
      rx (hw (run [e1, e2] s)) = []) \<and>
   (c2 = CHR ''A'' \<or> c2 = CHR ''Y'' \<longrightarrow>
      mode (P1 (command c2 (command c1 s))) = SOLID_ON \<and>
      currentLevel (P1 (command c2 (command c1 s))) = HIGH) \<and>
   (c2 = CHR ''a'' \<or> c2 = CHR ''X'' \<longrightarrow>
      mode (P1 (command c2 (command c1 s))) = OFF_MODE \<and>
      currentLevel (P1 (command c2 (command c1 s))) = LOW) \<and>
   (c2 = CHR ''1'' \<longrightarrow> mode (P1 (command c2 (command c1 s))) = BLINK_1HZ) \<and>
   (c2 = CHR ''2'' \<longrightarrow> mode (P1 (command c2 (command c1 s))) = BLINK_2HZ) \<and>
   (c2 = CHR ''3'' \<longrightarrow> mode (P1 (command c2 (command c1 s))) = BLINK_4HZ) \<and>
   (c2 \<notin> set ''AaYX123'' \<longrightarrow> P1 (command c2 (command c1 s)) = P1 (command c1 s)) \<and>
   (c2 = CHR ''B'' \<or> c2 = CHR ''Y'' \<longrightarrow>
      mode (P2 (command c2 (command c1 s))) = SOLID_ON \<and>
      currentLevel (P2 (command c2 (command c1 s))) = HIGH) \<and>
   (c2 = CHR ''b'' \<or> c2 = CHR ''X'' \<longrightarrow>
      mode (P2 (command c2 (command c1 s))) = OFF_MODE \<and>
      currentLevel (P2 (command c2 (command c1 s))) = LOW) \<and>
   (c2 = CHR ''4'' \<longrightarrow> mode (P2 (command c2 (command c1 s))) = BLINK_1HZ) \<and>
   (c2 = CHR ''5'' \<longrightarrow> mode (P2 (command c2 (command c1 s))) = BLINK_2HZ) \<and>
   (c2 = CHR ''6'' \<longrightarrow> mode (P2 (command c2 (command c1 s))) = BLINK_4HZ) \<and>
   (c2 \<notin> set ''BbYX456'' \<longrightarrow> P2 (command c2 (command c1 s)) = P2 (command c1 s)) \<and>
   (rx (hw s) = [c1, c2] \<and> e_bytes e1 = [] \<and> e_bytes e2 = [] \<longrightarrow>
      mode (P1 (run [e1, e2] s)) = mode (P1 (command c2 (command c1 s))) \<and>
      mode (P2 (run [e1, e2] s)) = mode (P2 (command c2 (command c1 s))) \<and>
      (c2 = CHR ''A'' \<or> c2 = CHR ''Y'' \<longrightarrow> currentLevel (P1 (run [e1, e2] s)) = HIGH) \<and>
      (c2 = CHR ''a'' \<or> c2 = CHR ''X'' \<longrightarrow> currentLevel (P1 (run [e1, e2] s)) = LOW) \<and>
      (c2 = CHR ''B'' \<or> c2 = CHR ''Y'' \<longrightarrow> currentLevel (P2 (run [e1, e2] s)) = HIGH) \<and>
      (c2 = CHR ''b'' \<or> c2 = CHR ''X'' \<longrightarrow> currentLevel (P2 (run [e1, e2] s)) = LOW) \<and>
      rx (hw (run [e1, e2] s)) = [])"
proof -
  have cmd: "mode (P1 (command CHR ''b'' (command CHR ''Y'' s))) = SOLID_ON \<and>
   currentLevel (P1 (command CHR ''b'' (command CHR ''Y'' s))) = HIGH \<and>
   mode (P2 (command CHR ''b'' (command CHR ''Y'' s))) = OFF_MODE \<and>
   currentLevel (P2 (command CHR ''b'' (command CHR ''Y'' s))) = LOW \<and>
   out (hw (command CHR ''b'' (command CHR ''Y'' s))) =
     out (hw s) @ [DigitalWrite (pin (P1 s)) HIGH, DigitalWrite (pin (P2 s)) HIGH,
                   DigitalWrite (pin (P2 s)) LOW]"
    by (simp add: command_Y command_b command_frame)
  have pair: "mode (P1 (run [e1, e2] s)) = mode (P1 (command d2 (command d1 s))) \<and>
      mode (P2 (run [e1, e2] s)) = mode (P2 (command d2 (command d1 s))) \<and>
      (d2 = CHR ''A'' \<or> d2 = CHR ''Y'' \<longrightarrow> currentLevel (P1 (run [e1, e2] s)) = HIGH) \<and>
      (d2 = CHR ''a'' \<or> d2 = CHR ''X'' \<longrightarrow> currentLevel (P1 (run [e1, e2] s)) = LOW) \<and>
      (d2 = CHR ''B'' \<or> d2 = CHR ''Y'' \<longrightarrow> currentLevel (P2 (run [e1, e2] s)) = HIGH) \<and>
      (d2 = CHR ''b'' \<or> d2 = CHR ''X'' \<longrightarrow> currentLevel (P2 (run [e1, e2] s)) = LOW) \<and>
      rx (hw (run [e1, e2] s)) = []"
    if rx: "rx (hw s) = [d1, d2]" and e1: "e_bytes e1 = []" and e2: "e_bytes e2 = []"
    for d1 d2
  proof -
    have rx1: "rx (hw (iteration e1 s)) = [d2]"
      by (rule iteration_reads(2) [OF rx e1])
    have m1: "mode (P1 (iteration e1 s)) = mode (P1 (command d1 s))"
      "mode (P2 (iteration e1 s)) = mode (P2 (command d1 s))"
      by (rule iteration_modes [OF rx e1])+
    have m2: "mode (P1 (run [e1, e2] s)) = mode (P1 (command d2 (iteration e1 s)))"
      "mode (P2 (run [e1, e2] s)) = mode (P2 (command d2 (iteration e1 s)))"
      using iteration_modes [OF rx1 e2] by simp_all
    have "mode (P1 (run [e1, e2] s)) = mode (P1 (command d2 (command d1 s)))"
      "mode (P2 (run [e1, e2] s)) = mode (P2 (command d2 (command d1 s)))"
      by (simp_all only: m2 command_modes m1)
    moreover have "rx (hw (run [e1, e2] s)) = []"
      using iteration_reads(2) [OF rx1 e2] by simp
    ultimately show ?thesis
      using iteration_static_level [OF rx1 e2] by simp
  qed
  have yb: "mode (P1 (run [e1, e2] s)) = SOLID_ON \<and>
      currentLevel (P1 (run [e1, e2] s)) = HIGH \<and>
      mode (P2 (run [e1, e2] s)) = OFF_MODE \<and>
      currentLevel (P2 (run [e1, e2] s)) = LOW \<and>
      rx (hw (run [e1, e2] s)) = []"
    if rx: "rx (hw s) = ''Yb''" and e1: "e_bytes e1 = []" and e2: "e_bytes e2 = []"
  proof -
    have rx1: "rx (hw (iteration e1 s)) = ''b''"
      by (rule iteration_reads(2) [OF rx e1])
    have lv1: "currentLevel (P1 (iteration e1 s)) = HIGH"
      using iteration_static_level(1) [OF rx e1] by simp
    have "mode (P1 (iteration e1 s)) = SOLID_ON"
      using iteration_modes(1) [OF rx e1] by (simp add: command_Y)
    then have "P1 (iteration e2 (iteration e1 s)) = P1 (iteration e1 s)"
      using iteration_other_led(1) [OF rx1 e2] by simp
    then have "currentLevel (P1 (run [e1, e2] s)) = HIGH"
      using lv1 by simp
    then show ?thesis
      using pair [OF rx e1 e2] by (simp add: command_Y command_b)
  qed
  show ?thesis
    using cmd yb pair [of c1 c2]
      command_P1 [where t = "command c1 s"] command_P2 [where t = "command c1 s"]
    by (intro conjI impI) simp_all
qed

text \<open>
  Both LEDs blinking, then \<open>Yb\<close> arrives; \<open>X\<close> then \<open>A\<close>; \<open>Y\<close> then \<open>5\<close>; and \<open>XB\<close>
  read by two iterations.
\<close>

theorem later_command_wins_witness:
  "mode (P1 (run [sample LOW, sample LOW]
               (command CHR ''5'' (command CHR ''1'' (boot (fresh_board 0 LOW ''Yb'')))))) =
     SOLID_ON \<and>
   currentLevel (P1 (run [sample LOW, sample LOW]
               (command CHR ''5'' (command CHR ''1'' (boot (fresh_board 0 LOW ''Yb'')))))) =
     HIGH \<and>
   mode (P2 (run [sample LOW, sample LOW]
               (command CHR ''5'' (command CHR ''1'' (boot (fresh_board 0 LOW ''Yb'')))))) =
     OFF_MODE \<and>
   currentLevel (P2 (run [sample LOW, sample LOW]
               (command CHR ''5'' (command CHR ''1'' (boot (fresh_board 0 LOW ''Yb'')))))) =
     LOW \<and>
   mode (P1 (command CHR ''A'' (command CHR ''X'' (boot (fresh_board 0 LOW []))))) = SOLID_ON \<and>
   currentLevel (P1 (command CHR ''A'' (command CHR ''X'' (boot (fresh_board 0 LOW []))))) = HIGH \<and>
   P2 (command CHR ''A'' (command CHR ''X'' (boot (fresh_board 0 LOW [])))) =
     P2 (command CHR ''X'' (boot (fresh_board 0 LOW []))) \<and>
   mode (P2 (command CHR ''5'' (command CHR ''Y'' (boot (fresh_board 0 LOW []))))) = BLINK_2HZ \<and>
   P1 (command CHR ''5'' (command CHR ''Y'' (boot (fresh_board 0 LOW [])))) =
     P1 (command CHR ''Y'' (boot (fresh_board 0 LOW []))) \<and>
   mode (P2 (run [sample LOW, sample LOW] (boot (fresh_board 0 LOW ''XB'')))) = SOLID_ON \<and>
   currentLevel (P2 (run [sample LOW, sample LOW] (boot (fresh_board 0 LOW ''XB'')))) = HIGH \<and>
   currentLevel (P1 (run [sample LOW, sample LOW] (boot (fresh_board 0 LOW ''XB'')))) = LOW"
proof -
  have rx: "rx (hw (command CHR ''5'' (command CHR ''1'' (boot (fresh_board 0 LOW ''Yb''))))) =
      ''Yb''"
    by (simp add: command_frame boot_frame fresh_board_def)
  have rx': "rx (hw (boot (fresh_board 0 LOW ''XB''))) = [CHR ''X'', CHR ''B'']"
    by (simp add: boot_frame fresh_board_def)
  have e: "e_bytes (sample LOW) = []"
    by (simp add: sample_def)
  note yb = later_command_wins [where s = "command CHR ''5'' (command CHR ''1''
        (boot (fresh_board 0 LOW ''Yb'')))" and ?e1.0 = "sample LOW" and ?e2.0 = "sample LOW"
      and ?c1.0 = "CHR ''Y''" and ?c2.0 = "CHR ''b''"]
  note xa = later_command_wins [where s = "boot (fresh_board 0 LOW [])"
      and ?e1.0 = "sample LOW" and ?e2.0 = "sample LOW"
      and ?c1.0 = "CHR ''X''" and ?c2.0 = "CHR ''A''"]
  note y5 = later_command_wins [where s = "boot (fresh_board 0 LOW [])"
      and ?e1.0 = "sample LOW" and ?e2.0 = "sample LOW"
      and ?c1.0 = "CHR ''Y''" and ?c2.0 = "CHR ''5''"]
  note xb = later_command_wins [where s = "boot (fresh_board 0 LOW ''XB'')"
      and ?e1.0 = "sample LOW" and ?e2.0 = "sample LOW"
      and ?c1.0 = "CHR ''X''" and ?c2.0 = "CHR ''B''"]
  have 1: "mode (P1 (run [sample LOW, sample LOW]
               (command CHR ''5'' (command CHR ''1'' (boot (fresh_board 0 LOW ''Yb'')))))) =
     SOLID_ON \<and>
   currentLevel (P1 (run [sample LOW, sample LOW]
               (command CHR ''5'' (command CHR ''1'' (boot (fresh_board 0 LOW ''Yb'')))))) =
     HIGH \<and>
   mode (P2 (run [sample LOW, sample LOW]
               (command CHR ''5'' (command CHR ''1'' (boot (fresh_board 0 LOW ''Yb'')))))) =
     OFF_MODE \<and>
   currentLevel (P2 (run [sample LOW, sample LOW]
               (command CHR ''5'' (command CHR ''1'' (boot (fresh_board 0 LOW ''Yb'')))))) =
     LOW"
    using yb rx e by blast
  have 2: "mode (P1 (command CHR ''A'' (command CHR ''X'' (boot (fresh_board 0 LOW []))))) = SOLID_ON \<and>
   currentLevel (P1 (command CHR ''A'' (command CHR ''X'' (boot (fresh_board 0 LOW []))))) = HIGH \<and>
   P2 (command CHR ''A'' (command CHR ''X'' (boot (fresh_board 0 LOW [])))) =
     P2 (command CHR ''X'' (boot (fresh_board 0 LOW [])))"
    using xa by simp
  have 3: "mode (P2 (command CHR ''5'' (command CHR ''Y'' (boot (fresh_board 0 LOW []))))) = BLINK_2HZ \<and>
   P1 (command CHR ''5'' (command CHR ''Y'' (boot (fresh_board 0 LOW [])))) =
     P1 (command CHR ''Y'' (boot (fresh_board 0 LOW [])))"
    using y5 by simp
  have "mode (P2 (command CHR ''B'' (command CHR ''X'' (boot (fresh_board 0 LOW ''XB''))))) =
      SOLID_ON"
    using xb by simp
  moreover have "mode (P2 (run [sample LOW, sample LOW] (boot (fresh_board 0 LOW ''XB'')))) =
      mode (P2 (command CHR ''B'' (command CHR ''X'' (boot (fresh_board 0 LOW ''XB'')))))
    \<and> currentLevel (P2 (run [sample LOW, sample LOW] (boot (fresh_board 0 LOW ''XB'')))) = HIGH"
    using xb rx' e by simp
  moreover have "currentLevel (P1 (run [sample LOW, sample LOW] (boot (fresh_board 0 LOW ''XB'')))) =
      LOW"
    by (simp add: sketch_defs)
  ultimately show ?thesis using 1 2 3 by simp
qed

text \<open>
  Claim C7. A byte that is none of \<open>A a B b Y X 1 2 3 4 5 6\<close> changes nothing: the
  switch leaves the whole state as it is (no LED's mode, last toggle or level changes,
  nothing is written), and an iteration that reads such a byte ends in the state in which
  an iteration with nothing to read ends, the byte gone from the receive buffer.
\<close>

theorem unknown_byte_ignored:
  assumes "c \<notin> set ''AaBbYX123456''"
  shows "command c s = s \<and>
         loop_serial (with_rx (c # rest) s) = with_rx rest s \<and>
         loop (with_rx (c # rest) s) = with_rx rest (loop (with_rx [] s))"
proof -
  have now: "millis (hw (with_rx (c # rest) s)) = millis (hw (with_rx [] s))"
    by (simp add: millis_def with_rx_def)
  have "loop (with_rx (c # rest) s) =
        with_rx rest ((loop_blink (millis (hw (with_rx [] s))) (loop_button s))
          \<lparr>hw := delay 1 (hw (loop_blink (millis (hw (with_rx [] s))) (loop_button s)))\<rparr>)"
    unfolding loop_def Let_def now
    by (simp only: loop_button_with_rx loop_serial_with_rx_unknown [OF assms]
        loop_blink_with_rx finish_with_rx)
  moreover have "loop (with_rx [] s) =
        with_rx [] ((loop_blink (millis (hw (with_rx [] s))) (loop_button s))
          \<lparr>hw := delay 1 (hw (loop_blink (millis (hw (with_rx [] s))) (loop_button s)))\<rparr>)"
    unfolding loop_def Let_def
    by (simp only: loop_button_with_rx loop_serial_with_rx_empty
        loop_blink_with_rx finish_with_rx)
  ultimately have "loop (with_rx (c # rest) s) = with_rx rest (loop (with_rx [] s))"
    by (simp only: with_rx_with_rx)
  then show ?thesis
    using assms by (simp add: command_unknown loop_serial_with_rx_unknown)
qed

text \<open>The byte \<open>z\<close>, with \<open>A\<close> waiting behind it, and a NUL byte.\<close>

theorem unknown_byte_ignored_witness:
  "CHR ''z'' \<notin> set ''AaBbYX123456'' \<and>
   command CHR ''z'' (boot (fresh_board 0 LOW [])) = boot (fresh_board 0 LOW []) \<and>
   loop (with_rx ''zA'' (boot (fresh_board 0 LOW []))) =
     with_rx ''A'' (loop (with_rx [] (boot (fresh_board 0 LOW [])))) \<and>
   command (CHR 0x00) (boot (fresh_board 0 LOW [])) = boot (fresh_board 0 LOW [])"
proof -
  have z: "CHR ''z'' \<notin> set ''AaBbYX123456''" and nul: "CHR 0x00 \<notin> set ''AaBbYX123456''"
    by simp_all
  show ?thesis
    using z unknown_byte_ignored [OF z, of "boot (fresh_board 0 LOW [])" "''A''"]
      unknown_byte_ignored [OF nul, of "boot (fresh_board 0 LOW [])" "[]"]
    by simp
qed

text \<open>
  Claim C3, as the sketch has it. The claim reads: every iteration reads and interprets
  all the bytes that are waiting. The sketch tests \<open>Serial.available() > 0\<close> with an
  \<open>if\<close> and reads once: an iteration takes the oldest waiting byte and no other. The
  bytes behind it stay in the buffer in their order, and the following iterations take
  them one each. So \<open>n\<close> iterations during which nothing new arrives take the first \<open>n\<close>
  waiting bytes, and the modes of the two LEDs afterwards are those the command table
  gives when these bytes are applied one after the other in the order of arrival.
\<close>

theorem loop_reads_oldest_byte_only:
  "rx (hw (loop s)) = drop 1 (rx (hw s)) \<and>
   loop_serial s = (case rx (hw s) of [] \<Rightarrow> s | c # rest \<Rightarrow> command c (with_rx rest s)) \<and>
   ((\<forall>e\<in>set envs. e_bytes e = []) \<longrightarrow>
      rx (hw (run envs s)) = drop (length envs) (rx (hw s)) \<and>
      (mode (P1 (run envs s)), mode (P2 (run envs s))) =
        foldl (\<lambda>ms c. spec_apply (spec_table c) ms) (mode (P1 s), mode (P2 s))
          (take (length envs) (rx (hw s))))"
  using run_no_arrivals [of envs s]
  by (simp add: loop_frame loop_serial_def Serial_available_def with_rx_def split: list.split)

text \<open>
  With \<open>3Yb\<close> waiting at power-on, three iterations take the three bytes in order, and
  two iterations leave the \<open>b\<close> waiting.
\<close>

theorem loop_reads_oldest_byte_only_witness:
  "rx (hw (run [sample LOW, sample LOW, sample LOW] (boot (fresh_board 0 LOW ''3Yb'')))) = [] \<and>
   mode (P1 (run [sample LOW, sample LOW, sample LOW] (boot (fresh_board 0 LOW ''3Yb'')))) =
     SOLID_ON \<and>
   mode (P2 (run [sample LOW, sample LOW, sample LOW] (boot (fresh_board 0 LOW ''3Yb'')))) =
     OFF_MODE \<and>
   rx (hw (run [sample LOW, sample LOW] (boot (fresh_board 0 LOW ''3Yb'')))) = ''b'' \<and>
   mode (P2 (run [sample LOW, sample LOW] (boot (fresh_board 0 LOW ''3Yb'')))) = SOLID_ON"
proof -
  have e3: "\<forall>e\<in>set [sample LOW, sample LOW, sample LOW]. e_bytes e = []"
    and e2: "\<forall>e\<in>set [sample LOW, sample LOW]. e_bytes e = []"
    by (simp_all add: sample_def)
  have start: "rx (hw (boot (fresh_board 0 LOW ''3Yb''))) = ''3Yb''"
    "mode (P1 (boot (fresh_board 0 LOW ''3Yb''))) = OFF_MODE"
    "mode (P2 (boot (fresh_board 0 LOW ''3Yb''))) = OFF_MODE"
    by (simp_all add: boot_frame fresh_board_def)
  from loop_reads_oldest_byte_only
    [of "boot (fresh_board 0 LOW ''3Yb'')" "[sample LOW, sample LOW, sample LOW]"] e3
  have three: "rx (hw (run [sample LOW, sample LOW, sample LOW]
                         (boot (fresh_board 0 LOW ''3Yb'')))) = [] \<and>
      (mode (P1 (run [sample LOW, sample LOW, sample LOW] (boot (fresh_board 0 LOW ''3Yb'')))),
       mode (P2 (run [sample LOW, sample LOW, sample LOW] (boot (fresh_board 0 LOW ''3Yb''))))) =
      (SOLID_ON, OFF_MODE)"
    unfolding start by (simp add: spec_table_def)
  from loop_reads_oldest_byte_only
    [of "boot (fresh_board 0 LOW ''3Yb'')" "[sample LOW, sample LOW]"] e2
  have two: "rx (hw (run [sample LOW, sample LOW] (boot (fresh_board 0 LOW ''3Yb'')))) = ''b'' \<and>
      (mode (P1 (run [sample LOW, sample LOW] (boot (fresh_board 0 LOW ''3Yb'')))),
       mode (P2 (run [sample LOW, sample LOW] (boot (fresh_board 0 LOW ''3Yb''))))) =
      (SOLID_ON, SOLID_ON)"
    unfolding start by (simp add: spec_table_def)
  from three two show ?thesis by simp
qed

text \<open>
  The claim as it reads fails on the sketch: with \<open>Yb\<close> waiting at power-on, the first
  iteration leaves \<open>b\<close> in the buffer, and \<open>P2\<close> is solid, not off, when it ends.
\<close>

theorem loop_reads_one_byte_counterexample:
  "rx (hw (loop (boot (fresh_board 0 LOW ''Yb'')))) = ''b'' \<and>
   rx (hw (loop (boot (fresh_board 0 LOW ''Yb'')))) \<noteq> [] \<and>
   mode (P2 (loop (boot (fresh_board 0 LOW ''Yb'')))) = SOLID_ON \<and>
   mode (P2 (command CHR ''b'' (command CHR ''Y'' (boot (fresh_board 0 LOW ''Yb''))))) = OFF_MODE"
proof -
  have "(mode (P1 (loop (boot (fresh_board 0 LOW ''Yb'')))),
         mode (P2 (loop (boot (fresh_board 0 LOW ''Yb''))))) = (SOLID_ON, SOLID_ON)"
    by (simp add: loop_modes boot_frame spec_table_def fresh_board_def)
  then show ?thesis by (simp add: loop_frame boot_frame fresh_board_def command_b)
qed

section \<open>The clock reading that the loop hands to the blink update\<close>

text \<open>
  \<open>loop()\<close> reads \<open>now\<close> once, at its top, and \<open>applyModeImmediate\<close> reads the clock
  again. When the key press and its 50 ms hold come between the two, the
  \<open>lastToggleMs\<close> that a blink command sets is later than the \<open>now\<close> that
  \<open>updateBlink\<close> is then called with; the unsigned difference wraps around to a large
  number and the LED flips in the iteration that set the mode.
\<close>

lemma stale_now_flips_at_once:
  assumes edge: "lastState s = LOW" "button (hw s) = HIGH"
    and cmd: "rx (hw s) = c # rest"
    and c: "c = CHR ''1'' \<or> c = CHR ''2'' \<or> c = CHR ''3''"
  shows "mode (P1 (loop s)) = mode (P1 (command c s)) \<and>
         (mode (P1 (loop s)) = BLINK_1HZ \<or> mode (P1 (loop s)) = BLINK_2HZ \<or>
          mode (P1 (loop s)) = BLINK_4HZ) \<and>
         currentLevel (P1 (loop s)) \<noteq> currentLevel (P1 s) \<and>
         lastToggleMs (P1 (loop s)) = clock (hw s)"
proof -
  let ?t = "with_rx rest (loop_button s)"
  define m where "m = mode (P1 (command c s))"
  have m: "m = BLINK_1HZ \<or> m = BLINK_2HZ \<or> m = BLINK_4HZ"
    using c command_P1(3-5) [of s] by (auto simp: m_def)
  have rxb: "rx (hw (loop_button s)) = c # rest"
    using cmd by (simp add: loop_button_frame)
  have clk: "clock (hw ?t) = clock (hw s) + 50"
    using edge by (simp add: with_rx_def loop_button_def digitalRead_def digitalWrite_def
        emit_def delay_def)
  have ser: "loop_serial (loop_button s) = command c ?t"
    by (rule loop_serial_cons [OF rxb])
  have pt: "P1 ?t = P1 s"
    by (simp add: with_rx_def loop_button_frame)
  have "P1 (command c ?t) = (P1 ?t)\<lparr>mode := m, lastToggleMs := clock (hw ?t)\<rparr>"
    using c by (auto simp: m_def command_def apply_P1_def applyModeImmediate_blink)
  then have p: "P1 (command c ?t) = (P1 s)\<lparr>mode := m, lastToggleMs := clock (hw s) + 50\<rparr>"
    by (simp only: pt clk)
  have due: "modeToInterval m \<le> clock (hw s) - (clock (hw s) + 50)"
    using m by (auto simp: interval_values)
  have "P1 (loop s) =
     (P1 s)\<lparr>mode := m, lastToggleMs := clock (hw s),
             currentLevel := (if currentLevel (P1 s) = LOW then HIGH else LOW)\<rparr>"
    using due m by (simp add: loop_players ser p updateBlink_due)
  then show ?thesis
    using m by (cases "currentLevel (P1 s)") (simp_all add: m_def)
qed

text \<open>
  Claim C2. The claim: setting a blink mode while the clock reads \<open>T\<close> leaves level and
  output alone and restarts the period, so that the next flip comes one period after
  \<open>T\<close> and a mode switch never flips the LED at once. The sketch does otherwise at this
  input. Power-on at 1000 ms; one iteration with the button released, which leaves \<open>P1\<close>
  dark in \<open>OFF_MODE\<close>; then an iteration in which the button is pressed and the byte
  \<open>1\<close> is waiting. That iteration reads \<open>now = 1003\<close>, holds the key for 50 ms and sets
  \<open>BLINK_1HZ\<close> while the clock reads 1053; its \<open>updateBlink(P1, now)\<close> then lights the
  LED: \<open>P1\<close> ends the iteration \<open>HIGH\<close>, with \<open>lastToggleMs = 1003\<close>, and pin 16 has been
  written \<open>HIGH\<close>, no period having passed.
\<close>

theorem mode_switch_flips_at_once:
  "P1 (run [sample LOW] (boot (fresh_board 1000 LOW []))) =
     \<lparr>pin = 16, mode = OFF_MODE, lastToggleMs = 1000, currentLevel = LOW\<rparr> \<and>
   clock (hw (run [sample LOW] (boot (fresh_board 1000 LOW [])))) = 1002 \<and>
   P1 (loop_serial (loop_button
         ((run [sample LOW] (boot (fresh_board 1000 LOW [])))
            \<lparr>hw := arrive (sample_with HIGH ''1'')
                     (hw (run [sample LOW] (boot (fresh_board 1000 LOW []))))\<rparr>))) =
     \<lparr>pin = 16, mode = BLINK_1HZ, lastToggleMs = 1053, currentLevel = LOW\<rparr> \<and>
   P1 (run [sample LOW, sample_with HIGH ''1''] (boot (fresh_board 1000 LOW []))) =
     \<lparr>pin = 16, mode = BLINK_1HZ, lastToggleMs = 1003, currentLevel = HIGH\<rparr> \<and>
   writes_to 16 (out (hw (run [sample LOW] (boot (fresh_board 1000 LOW []))))) = [LOW, LOW] \<and>
   writes_to 16
      (out (hw (run [sample LOW, sample_with HIGH ''1''] (boot (fresh_board 1000 LOW []))))) =
     [LOW, LOW, HIGH] \<and>
   clock (hw (run [sample LOW, sample_with HIGH ''1''] (boot (fresh_board 1000 LOW [])))) = 1054"
  by (simp add: sketch_defs)

text \<open>
  Claim C9. The claim: setting a blink mode changes only \<open>mode\<close> and \<open>lastToggleMs\<close>,
  so the blinking starts from the level it finds; entering from \<open>OFF_MODE\<close> the LED
  spends its first period \<open>LOW\<close>, entering from \<open>SOLID_ON\<close> it spends it \<open>HIGH\<close>. The
  first half holds (\<open>blink_mode_inherits_level\<close>). The second fails in the sketch at
  these inputs, through the clock reading of the previous claim. Power-on at 1000 ms, one
  iteration with the button released, then one with the button pressed and the byte \<open>2\<close>
  waiting: \<open>P1\<close> enters \<open>BLINK_2HZ\<close> from \<open>OFF_MODE\<close> and ends that iteration \<open>HIGH\<close>.
  With the byte \<open>A\<close> waiting at power-on instead, \<open>P1\<close> is solid after the first
  iteration, enters \<open>BLINK_2HZ\<close> from \<open>SOLID_ON\<close> in the second and ends it \<open>LOW\<close>.
\<close>

theorem blink_entry_flips_prior_level:
  "P1 (run [sample LOW] (boot (fresh_board 1000 LOW []))) =
     \<lparr>pin = 16, mode = OFF_MODE, lastToggleMs = 1000, currentLevel = LOW\<rparr> \<and>
   P1 (run [sample LOW, sample_with HIGH ''2''] (boot (fresh_board 1000 LOW []))) =
     \<lparr>pin = 16, mode = BLINK_2HZ, lastToggleMs = 1003, currentLevel = HIGH\<rparr> \<and>
   writes_to 16
      (out (hw (run [sample LOW, sample_with HIGH ''2''] (boot (fresh_board 1000 LOW []))))) =
     [LOW, LOW, HIGH] \<and>
   P1 (run [sample LOW] (boot (fresh_board 1000 LOW ''A''))) =
     \<lparr>pin = 16, mode = SOLID_ON, lastToggleMs = 1001, currentLevel = HIGH\<rparr> \<and>
   P1 (run [sample LOW, sample_with HIGH ''2''] (boot (fresh_board 1000 LOW ''A''))) =
     \<lparr>pin = 16, mode = BLINK_2HZ, lastToggleMs = 1003, currentLevel = LOW\<rparr> \<and>
   writes_to 16
      (out (hw (run [sample LOW, sample_with HIGH ''2''] (boot (fresh_board 1000 LOW ''A''))))) =
     [LOW, LOW, HIGH, LOW]"
  by (simp add: sketch_defs)

end
